theory Spec2Isabelle
  imports Main "HOL-Library.AList"
begin

section \<open>Values and strings\<close>

text \<open>
  Go's \<open>interface{}\<close> values that travel through the gateway: JSON payload values,
  parsed filter values, configured defaults and the values the handlers generate.
  The payload of a \<open>float64\<close> is the type parameter \<open>'f\<close>: no property below depends on
  floating-point arithmetic. A \<open>time.Time\<close> is a count of seconds relative to the Unix
  epoch; \<open>int64\<close> values are integers kept inside the 64-bit range by the parsers.
\<close>

datatype 'f val =
    VNil
  | VInt int
  | VFloat 'f
  | VBool bool
  | VStr string
  | VTime int
  | VOid string
  | VArr "'f val list"
  | VObj "(string \<times> 'f val) list"

text \<open>A Go \<open>map[string]interface{}\<close> (a record, a filter, a payload): an association
  list with the operations of \<open>HOL-Library.AList\<close>; \<open>m[k] = v\<close> is \<open>AList.update k v m\<close>,
  \<open>delete(m, k)\<close> is \<open>AList.delete k m\<close> and \<open>m[k]\<close> is \<open>map_of m k\<close>.\<close>

type_synonym 'f gomap = "(string \<times> 'f val) list"

subsection \<open>The functions of package \<open>strings\<close> that the code calls\<close>

text \<open>\<open>strings.ToLower\<close> on ASCII letters (the names and column types compared below
  are ASCII literals).\<close>

definition lowerChar :: "char \<Rightarrow> char" where
  "lowerChar c =
     (case map_of (zip ''ABCDEFGHIJKLMNOPQRSTUVWXYZ'' ''abcdefghijklmnopqrstuvwxyz'') c of
        Some l \<Rightarrow> l
      | None \<Rightarrow> c)"

definition toLower :: "string \<Rightarrow> string" where
  "toLower s = map lowerChar s"

fun hasPrefix :: "string \<Rightarrow> string \<Rightarrow> bool" where
  "hasPrefix s [] = True"
| "hasPrefix [] (p # ps) = False"
| "hasPrefix (c # cs) (p # ps) = (c = p \<and> hasPrefix cs ps)"

text \<open>\<open>strings.Contains\<close>.\<close>

fun containsStr :: "string \<Rightarrow> string \<Rightarrow> bool" where
  "containsStr [] sub = (sub = [])"
| "containsStr (c # cs) sub = (hasPrefix (c # cs) sub \<or> containsStr cs sub)"

text \<open>\<open>strings.Split(s, ",")\<close>: one more piece than there are commas, so the empty
  string gives one empty piece.\<close>

fun splitComma :: "string \<Rightarrow> string list" where
  "splitComma [] = [[]]"
| "splitComma (c # cs) =
     (if c = CHR '','' then [] # splitComma cs
      else (case splitComma cs of [] \<Rightarrow> [[c]] | p # ps \<Rightarrow> (c # p) # ps))"

text \<open>\<open>strings.TrimSpace\<close> for the ASCII white space (tab, line feed, vertical tab,
  form feed, carriage return, space).\<close>

definition isSpace :: "char \<Rightarrow> bool" where
  "isSpace c = (c \<in> set [CHR 0x09, CHR 0x0A, CHR 0x0B, CHR 0x0C, CHR 0x0D, CHR '' ''])"

definition trimSpace :: "string \<Rightarrow> string" where
  "trimSpace s = rev (dropWhile isSpace (rev (dropWhile isSpace s)))"

section \<open>Configuration\<close>

text \<open>The \<open>interface{}\<close> fields of \<open>tableConfig\<close>, by the shapes the getters distinguish.
  Scalars are kept as \<open>fmt.Sprint\<close> prints them; a map is the list of its keys in the
  order the \<open>range\<close> visits them.\<close>

datatype ukItem = UKGroup "string list" | UKScalar string

datatype uniqueKeysCfg =
    UKNil
  | UKItems "ukItem list"
  | UKStrings "string list"
  | UKMap "string list"
  | UKOther

datatype autoUpdateCfg =
    AUNil
  | AUStrings "string list"
  | AUItems "string list"
  | AUMap "string list"
  | AUOther

record 'f tableConfig =
  Name :: string
  Alias :: string
  PrimaryKey :: string
  UniqueKeys :: uniqueKeysCfg
  DefaultValues :: "'f gomap option"
  SoftDeleteKey :: string
  SoftDeleteType :: string
  AutoUpdateFields :: autoUpdateCfg

record dmConfig =
  DefaultPage :: int
  DefaultPageSize :: int
  MaxPageSize :: int

definition GetAutoUpdateFields :: "('f, 'x) tableConfig_scheme \<Rightarrow> string list" where
  "GetAutoUpdateFields tc =
     (case AutoUpdateFields tc of
        AUNil \<Rightarrow> []
      | AUStrings v \<Rightarrow> v
      | AUItems v \<Rightarrow> v
      | AUMap ks \<Rightarrow> ks
      | AUOther \<Rightarrow> [])"

fun ukItemKeys :: "ukItem \<Rightarrow> string list" where
  "ukItemKeys (UKGroup arr) = arr"
| "ukItemKeys (UKScalar s) = [s]"

definition GetUniqueKeys :: "('f, 'x) tableConfig_scheme \<Rightarrow> string list list" where
  "GetUniqueKeys tc =
     (case UniqueKeys tc of
        UKNil \<Rightarrow> []
      | UKItems v \<Rightarrow> map ukItemKeys v
      | UKStrings v \<Rightarrow> map (\<lambda>s. [s]) v
      | UKMap ks \<Rightarrow> map (\<lambda>k. [k]) ks
      | UKOther \<Rightarrow> [])"

text \<open>\<open>IsValidKeyCombination\<close>: some group has the length of \<open>fields\<close> and agrees with it
  at every index.\<close>

definition IsValidKeyCombination :: "('f, 'x) tableConfig_scheme \<Rightarrow> string list \<Rightarrow> bool" where
  "IsValidKeyCombination tc flds =
     list_ex (\<lambda>k. length k = length flds \<and> list_all (\<lambda>(a, b). a = b) (zip k flds))
       (GetUniqueKeys tc)"

definition parseKeyFields :: "string \<Rightarrow> string list" where
  "parseKeyFields keyParam =
     (let keyParam = trimSpace keyParam in
      if keyParam = [] then [] else map trimSpace (splitComma keyParam))"

definition parseStringList :: "string \<Rightarrow> string list" where
  "parseStringList v = (if v = [] then [] else splitComma v)"

section \<open>Parsing numbers and booleans\<close>

definition digitVal :: "char \<Rightarrow> int option" where
  "digitVal c = map_of (zip ''0123456789'' [0, 1, 2, 3, 4, 5, 6, 7, 8, 9]) c"

fun digitsVal :: "string \<Rightarrow> int \<Rightarrow> int option" where
  "digitsVal [] acc = Some acc"
| "digitsVal (c # cs) acc =
     (case digitVal c of None \<Rightarrow> None | Some d \<Rightarrow> digitsVal cs (acc * 10 + d))"

text \<open>The syntax \<open>strconv.ParseInt(s, 10, 64)\<close> and \<open>strconv.Atoi\<close> accept: an optional
  sign and at least one decimal digit. \<open>None\<close> is the syntax error.\<close>

definition parseSigned :: "string \<Rightarrow> int option" where
  "parseSigned s =
     (case s of
        [] \<Rightarrow> None
      | c # cs \<Rightarrow>
          let neg = (c = CHR ''-''); ds = (if c = CHR ''-'' \<or> c = CHR ''+'' then cs else s) in
          if ds = [] then None
          else (case digitsVal ds 0 of
                  None \<Rightarrow> None
                | Some n \<Rightarrow> Some (if neg then - n else n)))"

definition minInt64 :: int where "minInt64 = - (2 ^ 63)"
definition maxInt64 :: int where "maxInt64 = 2 ^ 63 - 1"

text \<open>\<open>strconv.ParseInt(s, 10, 64)\<close> with \<open>err == nil\<close>: the value, when it is in range.\<close>

definition parseInt64 :: "string \<Rightarrow> int option" where
  "parseInt64 s =
     (case parseSigned s of
        None \<Rightarrow> None
      | Some n \<Rightarrow> if minInt64 \<le> n \<and> n \<le> maxInt64 then Some n else None)"

text \<open>The value \<open>strconv.Atoi\<close> returns when the caller drops the error: 0 on a syntax
  error, the nearest bound on a range error.\<close>

definition atoi :: "string \<Rightarrow> int" where
  "atoi s = (case parseSigned s of None \<Rightarrow> 0 | Some n \<Rightarrow> max minInt64 (min maxInt64 n))"

definition parseBool :: "string \<Rightarrow> bool option" where
  "parseBool s =
     (if s \<in> set [''1'', ''t'', ''T'', ''TRUE'', ''true'', ''True''] then Some True
      else if s \<in> set [''0'', ''f'', ''F'', ''FALSE'', ''false'', ''False''] then Some False
      else None)"

text \<open>Go's \<open>int\<close> is 64 bits wide: arithmetic wraps around.\<close>

definition wrap64 :: "int \<Rightarrow> int" where
  "wrap64 x = (x + 2 ^ 63) mod 2 ^ 64 - 2 ^ 63"

text \<open>The library functions the model does not interpret: \<open>strconv.ParseFloat(s, 64)\<close>
  (\<open>None\<close> when it returns an error), \<open>url.QueryUnescape\<close> (likewise) and
  \<open>regexp.QuoteMeta\<close>.\<close>

record 'f golib =
  parseFloat :: "string \<Rightarrow> 'f option"
  queryUnescape :: "string \<Rightarrow> string option"
  quoteMeta :: "string \<Rightarrow> string"

definition parseFilterValue :: "'f golib \<Rightarrow> string \<Rightarrow> 'f val" where
  "parseFilterValue lib v =
     (case parseInt64 v of
        Some i \<Rightarrow> VInt i
      | None \<Rightarrow>
          (case parseFloat lib v of
             Some f \<Rightarrow> VFloat f
           | None \<Rightarrow> (case parseBool v of Some b \<Rightarrow> VBool b | None \<Rightarrow> VStr v)))"

definition parseFilterValues :: "'f golib \<Rightarrow> string \<Rightarrow> 'f val list" where
  "parseFilterValues lib v = map (\<lambda>part. parseFilterValue lib (trimSpace part)) (splitComma v)"

definition normalizeLikeValue :: "'f golib \<Rightarrow> string \<Rightarrow> string" where
  "normalizeLikeValue lib v = (case queryUnescape lib v of None \<Rightarrow> v | Some decoded \<Rightarrow> decoded)"

text \<open>An instance for the closed examples below: a float is kept as the text it was
  read from, and the examples contain no escapes and no regular-expression
  metacharacters.\<close>

definition sampleLib :: "string golib" where
  "sampleLib =
     \<lparr>parseFloat = (\<lambda>s. if s \<in> set [''1.5'', ''2.25'', ''1e3''] then Some s else None),
      queryUnescape = (\<lambda>s. Some s), quoteMeta = (\<lambda>s. s)\<rparr>"

section \<open>The filter grammar\<close>

definition queryParamPage :: string where "queryParamPage = ''page''"
definition queryParamPageSize :: string where "queryParamPageSize = ''page_size''"
definition queryParamFields :: string where "queryParamFields = ''fields''"
definition queryParamOrder :: string where "queryParamOrder = ''order''"
definition queryParamKey :: string where "queryParamKey = ''key''"

definition softDeleteTypeTimestamp :: string where "softDeleteTypeTimestamp = ''timestamp''"
definition softDeleteTypeBoolean :: string where "softDeleteTypeBoolean = ''boolean''"
definition softDeleteTypeInt :: string where "softDeleteTypeInt = ''int''"

text \<open>\<open>url.Values\<close>: each key of the query string with its values, in the order the
  \<open>range\<close> over the map visits them.\<close>

type_synonym urlValues = "(string \<times> string list) list"

record listParams =
  Page :: int
  PageSize :: int
  Fields :: string
  Order :: string
  QueryFilters :: urlValues

text \<open>The key of a filter parameter: \<open>strings.SplitN(key, "__", 2)\<close> cuts at the leftmost
  double underscore; \<open>None\<close> when \<open>strings.Contains(key, "__")\<close> is false.\<close>

fun cutOp :: "string \<Rightarrow> (string \<times> string) option" where
  "cutOp (a # b # rest) =
     (if a = CHR ''_'' \<and> b = CHR ''_'' then Some ([], rest)
      else (case cutOp (b # rest) of None \<Rightarrow> None | Some (f, r) \<Rightarrow> Some (a # f, r)))"
| "cutOp s = None"

definition splitKey :: "string \<Rightarrow> string \<times> string" where
  "splitKey key =
     (case cutOp key of None \<Rightarrow> (key, ''='') | Some (f, r) \<Rightarrow> (f, ''__'' @ r))"

text \<open>The conditions the relational adapter hands to \<open>db.Where\<close>, one constructor for
  each SQL template of the source, with the arguments bound to its placeholders.\<close>

datatype 'f gcond =
    CEq string "'f val"
  | CGte string "'f val"
  | CLte string "'f val"
  | CGt string "'f val"
  | CLt string "'f val"
  | CNe string "'f val"
  | CLike string string
  | CLowerLike string string
  | CIn string "'f val list"
  | CIsNull string
  | CIsNotNull string
  | CBetween string "'f val" "'f val"
  | CIsNullOrEq string "'f val"

text \<open>The body of the loop of \<open>gormAdapter.List\<close> for one key and its first value: the
  condition it adds, if any. \<open>__in\<close> binds \<open>stringVals\<close>, the pieces as strings.\<close>

definition gormFilterCond :: "'f golib \<Rightarrow> string \<Rightarrow> string \<Rightarrow> 'f gcond option" where
  "gormFilterCond lib key v =
     (let (fieldName, op) = splitKey key;
          parsedVal = parseFilterValue lib v;
          stringVals = parseStringList v;
          parsedVals = parseFilterValues lib v
      in if op = ''='' then Some (CEq fieldName parsedVal)
         else if op = ''__gte'' then Some (CGte fieldName parsedVal)
         else if op = ''__lte'' then Some (CLte fieldName parsedVal)
         else if op = ''__gt'' then Some (CGt fieldName parsedVal)
         else if op = ''__lt'' then Some (CLt fieldName parsedVal)
         else if op = ''__ne'' then Some (CNe fieldName parsedVal)
         else if op = ''__like'' then Some (CLike fieldName (normalizeLikeValue lib v))
         else if op = ''__icontains''
           then Some (CLowerLike fieldName (''%'' @ normalizeLikeValue lib v @ ''%''))
         else if op = ''__in'' then Some (CIn fieldName (map VStr stringVals))
         else if op = ''__isnull'' then
           (case parsedVal of
              VBool bVal \<Rightarrow> Some (if bVal then CIsNull fieldName else CIsNotNull fieldName)
            | _ \<Rightarrow> None)
         else if op = ''__between'' then
           (case parsedVals of [lo, hi] \<Rightarrow> Some (CBetween fieldName lo hi) | _ \<Rightarrow> None)
         else None)"

text \<open>The values a \<open>bson.M\<close> filter holds under a field name: a plain value or one of the
  operator documents the document adapter builds; \<open>MOr\<close> is the list under \<open>$or\<close>.\<close>

datatype 'f mcond =
    MVal "'f val"
  | MGte "'f val"
  | MLte "'f val"
  | MGt "'f val"
  | MLt "'f val"
  | MNe "'f val"
  | MRegex string string
  | MIn "'f val list"
  | MExists bool
  | MGteLte "'f val" "'f val"
  | MOr "(string \<times> 'f mcond) list"

type_synonym 'f bsonM = "(string \<times> 'f mcond) list"

definition hasSuffix :: "string \<Rightarrow> string \<Rightarrow> bool" where
  "hasSuffix s suf = hasPrefix (rev s) (rev suf)"

definition likePattern :: "'f golib \<Rightarrow> string \<Rightarrow> string" where
  "likePattern lib v =
     (let pattern = quoteMeta lib v;
          pattern = concat (map (\<lambda>c. if c = CHR ''%'' then ''.*'' else [c]) pattern);
          pattern = map (\<lambda>c. if c = CHR ''_'' then CHR ''.'' else c) pattern;
          pattern = (if \<not> hasPrefix pattern ''.*'' then ''^'' @ pattern else pattern)
      in if \<not> hasSuffix pattern ''.*'' then pattern @ ''$'' else pattern)"

text \<open>The body of the loop of \<open>mongoAdapter.List\<close> for one key and its first value: the
  entry it stores in \<open>filter\<close>, if any.\<close>

definition mongoFilterEntry :: "'f golib \<Rightarrow> string \<Rightarrow> string \<Rightarrow> (string \<times> 'f mcond) option" where
  "mongoFilterEntry lib key v =
     (let (fieldName, op) = splitKey key
      in if op = ''='' then Some (fieldName, MVal (parseFilterValue lib v))
         else if op = ''__gte'' then Some (fieldName, MGte (parseFilterValue lib v))
         else if op = ''__lte'' then Some (fieldName, MLte (parseFilterValue lib v))
         else if op = ''__gt'' then Some (fieldName, MGt (parseFilterValue lib v))
         else if op = ''__lt'' then Some (fieldName, MLt (parseFilterValue lib v))
         else if op = ''__ne'' then Some (fieldName, MNe (parseFilterValue lib v))
         else if op = ''__like'' then Some (fieldName, MRegex (likePattern lib v) ''i'')
         else if op = ''__icontains'' then Some (fieldName, MRegex v ''i'')
         else if op = ''__in'' then Some (fieldName, MIn (parseFilterValues lib v))
         else if op = ''__isnull'' then
           (case parseFilterValue lib v of
              VBool bVal \<Rightarrow> Some (fieldName, MExists (\<not> bVal))
            | _ \<Rightarrow> None)
         else if op = ''__between'' then
           (case parseFilterValues lib v of
              [lo, hi] \<Rightarrow> Some (fieldName, MGteLte lo hi)
            | _ \<Rightarrow> None)
         else None)"


section \<open>The relational adapter\<close>

subsection \<open>The database behind \<open>gorm\<close>\<close>

datatype gorder = OrderAsc string | OrderDesc string

text \<open>The \<open>*gorm.DB\<close> a chain of \<open>Where\<close>, \<open>Order\<close> and \<open>Select\<close> calls builds.\<close>

record 'f gormDB =
  conds :: "'f gcond list"
  orderBy :: "gorder option"
  selectFields :: "string option"

text \<open>
  A table is the list of its rows; a column a row does not hold is NULL. What the SQL
  engine decides is a parameter: whether \<open>RowsAffected\<close> of an UPDATE counts the rows
  matched (PostgreSQL, SQLite) or only the rows changed (MySQL), which statements it
  answers with an error (\<open>fails\<close>: an unknown column, a lost connection, a cancelled
  context), the truth of the comparison and pattern conditions, and the collation that
  \<open>ORDER BY\<close> follows.
\<close>

datatype sqlOp = OpCount | OpFind | OpTake | OpUpdates | OpDelete

record 'f sqlBackend =
  foundRows :: bool
  fails :: "sqlOp \<Rightarrow> 'f gormDB \<Rightarrow> bool"
  otherCond :: "'f gcond \<Rightarrow> 'f gomap \<Rightarrow> bool"
  sortKey :: "string \<Rightarrow> 'f gomap \<Rightarrow> int"

datatype dbError = ErrRecordNotFound | ErrNoDocuments | ErrBackend

text \<open>\<open>time.Time{}\<close>, the zero time: January 1 of year 1, in seconds before the epoch.\<close>

definition zeroTime :: "'f val" where
  "zeroTime = VTime (- 62135596800)"

definition col :: "'f gomap \<Rightarrow> string \<Rightarrow> 'f val" where
  "col row k = (case map_of row k of None \<Rightarrow> VNil | Some x \<Rightarrow> x)"

text \<open>SQL equality: never true on NULL; a string that reads as an integer compares as
  that integer.\<close>

fun sqlNorm :: "'f val \<Rightarrow> 'f val" where
  "sqlNorm (VStr s) = (case parseInt64 s of Some n \<Rightarrow> VInt n | None \<Rightarrow> VStr s)"
| "sqlNorm v = v"

definition sqlEq :: "'f val \<Rightarrow> 'f val \<Rightarrow> bool" where
  "sqlEq a b = (a \<noteq> VNil \<and> b \<noteq> VNil \<and> sqlNorm a = sqlNorm b)"

fun gcondHolds :: "'f sqlBackend \<Rightarrow> 'f gomap \<Rightarrow> 'f gcond \<Rightarrow> bool" where
  "gcondHolds be row (CEq k v) = sqlEq (col row k) v"
| "gcondHolds be row (CIsNull k) = (col row k = VNil)"
| "gcondHolds be row (CIsNotNull k) = (col row k \<noteq> VNil)"
| "gcondHolds be row (CIsNullOrEq k v) = (col row k = VNil \<or> sqlEq (col row k) v)"
| "gcondHolds be row (CIn k vs) = list_ex (sqlEq (col row k)) vs"
| "gcondHolds be row c = otherCond be c row"

definition newDB :: "'f gormDB" where
  "newDB = \<lparr>conds = [], orderBy = None, selectFields = None\<rparr>"

definition dbWhere :: "'f gcond \<Rightarrow> 'f gormDB \<Rightarrow> 'f gormDB" where
  "dbWhere c db = db\<lparr>conds := conds db @ [c]\<rparr>"

definition dbMatches :: "'f sqlBackend \<Rightarrow> 'f gormDB \<Rightarrow> 'f gomap \<Rightarrow> bool" where
  "dbMatches be db row = list_all (gcondHolds be row) (conds db)"

definition projectRow :: "string option \<Rightarrow> 'f gomap \<Rightarrow> 'f gomap" where
  "projectRow sel row =
     (case sel of
        None \<Rightarrow> row
      | Some flds \<Rightarrow> filter (\<lambda>(k, v). k \<in> set (map trimSpace (splitComma flds))) row)"

definition dbCount :: "'f sqlBackend \<Rightarrow> 'f gormDB \<Rightarrow> 'f gomap list \<Rightarrow> int" where
  "dbCount be db rows = int (length (filter (dbMatches be db) rows))"

definition dbOrdered :: "'f sqlBackend \<Rightarrow> 'f gormDB \<Rightarrow> 'f gomap list \<Rightarrow> 'f gomap list" where
  "dbOrdered be db rows =
     (let matching = filter (dbMatches be db) rows in
      case orderBy db of
        None \<Rightarrow> matching
      | Some (OrderAsc c) \<Rightarrow> sort_key (sortKey be c) matching
      | Some (OrderDesc c) \<Rightarrow> rev (sort_key (sortKey be c) matching))"

text \<open>\<open>db.Offset(offset).Limit(limit).Find\<close>: \<open>gorm\<close> writes OFFSET only for a positive
  offset and LIMIT only for a limit that is not negative.\<close>

definition dbFind ::
  "'f sqlBackend \<Rightarrow> 'f gormDB \<Rightarrow> int \<Rightarrow> int \<Rightarrow> 'f gomap list \<Rightarrow> 'f gomap list" where
  "dbFind be db offset limit rows =
     (let ordered = dbOrdered be db rows;
          skipped = (if 0 < offset then drop (nat offset) ordered else ordered);
          page = (if limit < 0 then skipped else take (nat limit) skipped)
      in map (projectRow (selectFields db)) page)"

definition dbTake :: "'f sqlBackend \<Rightarrow> 'f gormDB \<Rightarrow> 'f gomap list \<Rightarrow> dbError + 'f gomap" where
  "dbTake be db rows =
     (case filter (dbMatches be db) rows of
        [] \<Rightarrow> Inl ErrRecordNotFound
      | r # _ \<Rightarrow> Inr (projectRow (selectFields db) r))"

definition setColumns :: "'f gomap \<Rightarrow> 'f gomap \<Rightarrow> 'f gomap" where
  "setColumns updateData row = fold (\<lambda>(k, v) r. AList.update k v r) updateData row"

text \<open>\<open>query.Updates(updateData)\<close>: the new table and \<open>RowsAffected\<close>.\<close>

definition dbUpdates ::
  "'f sqlBackend \<Rightarrow> 'f gormDB \<Rightarrow> 'f gomap \<Rightarrow> 'f gomap list \<Rightarrow> 'f gomap list \<times> int" where
  "dbUpdates be db updateData rows =
     (let matched = filter (dbMatches be db) rows;
          changed = filter (\<lambda>r. list_ex (\<lambda>(k, v). map_of r k \<noteq> Some v) updateData) matched
      in (map (\<lambda>r. if dbMatches be db r then setColumns updateData r else r) rows,
          int (length (if foundRows be then matched else changed))))"

definition dbDelete ::
  "'f sqlBackend \<Rightarrow> 'f gormDB \<Rightarrow> 'f gomap list \<Rightarrow> 'f gomap list \<times> int" where
  "dbDelete be db rows =
     (filter (\<lambda>r. \<not> dbMatches be db r) rows, int (length (filter (dbMatches be db) rows)))"

subsection \<open>The adapter\<close>

definition applyGormSoftDeleteFilter ::
  "'f gormDB \<Rightarrow> ('f, 'x) tableConfig_scheme \<Rightarrow> 'f gormDB" where
  "applyGormSoftDeleteFilter db tc =
     (if SoftDeleteKey tc \<noteq> [] then
        (if SoftDeleteType tc = softDeleteTypeTimestamp
           then dbWhere (CIsNullOrEq (SoftDeleteKey tc) zeroTime) db
         else if SoftDeleteType tc = softDeleteTypeBoolean
           then dbWhere (CEq (SoftDeleteKey tc) (VBool False)) db
         else if SoftDeleteType tc = softDeleteTypeInt
           then dbWhere (CEq (SoftDeleteKey tc) (VInt 0)) db
         else dbWhere (CIsNull (SoftDeleteKey tc)) db)
      else db)"

text \<open>The value a delete writes into the soft-delete column; \<open>now\<close> is the clock, in
  seconds since the epoch.\<close>

definition softDeleteMarker :: "('f, 'x) tableConfig_scheme \<Rightarrow> nat \<Rightarrow> 'f val" where
  "softDeleteMarker tc now =
     (if SoftDeleteType tc = softDeleteTypeTimestamp then VTime (int now)
      else if SoftDeleteType tc = softDeleteTypeBoolean then VBool True
      else if SoftDeleteType tc = softDeleteTypeInt then VInt 1
      else VTime (int now))"

definition whereFilter :: "'f gomap \<Rightarrow> 'f gormDB \<Rightarrow> 'f gormDB" where
  "whereFilter flt db = fold (\<lambda>(k, v) q. dbWhere (CEq k v) q) flt db"

definition isReservedParam :: "string \<Rightarrow> bool" where
  "isReservedParam key =
     (key = queryParamPage \<or> key = queryParamPageSize \<or> key = queryParamFields \<or>
      key = queryParamOrder)"

fun gormListLoop ::
  "'f golib \<Rightarrow> urlValues \<Rightarrow> 'f gormDB \<times> bool \<Rightarrow> 'f gormDB \<times> bool" where
  "gormListLoop lib [] st = st"
| "gormListLoop lib ((key, vals) # rest) (db, hasFilter) =
     (if isReservedParam key then gormListLoop lib rest (db, hasFilter)
      else (case vals of
              [] \<Rightarrow> gormListLoop lib rest (db, hasFilter)
            | v # _ \<Rightarrow>
                gormListLoop lib rest
                  (case gormFilterCond lib key v of None \<Rightarrow> db | Some c \<Rightarrow> dbWhere c db, True)))"

definition gormListQuery ::
  "'f golib \<Rightarrow> ('f, 'x) tableConfig_scheme \<Rightarrow> listParams \<Rightarrow> 'f gormDB \<times> bool" where
  "gormListQuery lib tc params =
     gormListLoop lib (QueryFilters params) (applyGormSoftDeleteFilter newDB tc, False)"

definition gormOrderSelect :: "listParams \<Rightarrow> 'f gormDB \<Rightarrow> 'f gormDB" where
  "gormOrderSelect params db =
     (let db = (if Order params \<noteq> [] then
                  (if hasPrefix (Order params) ''-''
                   then db\<lparr>orderBy := Some (OrderDesc (tl (Order params)))\<rparr>
                   else db\<lparr>orderBy := Some (OrderAsc (Order params))\<rparr>)
                else db)
      in if Fields params \<noteq> [] then db\<lparr>selectFields := Some (Fields params)\<rparr> else db)"

text \<open>\<open>gormAdapter.List\<close>: the conditions, the count when a filter was given, then order,
  projection, offset and limit. An error of \<open>db.Count\<close> or of \<open>Find\<close> is returned.\<close>

definition gormList ::
  "'f sqlBackend \<Rightarrow> 'f golib \<Rightarrow> ('f, 'x) tableConfig_scheme \<Rightarrow> listParams \<Rightarrow> 'f gomap list \<Rightarrow>
   dbError + ('f gomap list \<times> int)" where
  "gormList be lib tc params rows =
     (let (db, hasFilter) = gormListQuery lib tc params in
      if hasFilter \<and> fails be OpCount db then Inl ErrBackend
      else (let total = (if hasFilter then dbCount be db rows else 0);
                db = gormOrderSelect params db;
                offset = wrap64 ((Page params - 1) * PageSize params)
            in if fails be OpFind db then Inl ErrBackend
               else Inr (dbFind be db offset (PageSize params) rows, total)))"

text \<open>\<open>gormAdapter.GetOne\<close>: the error of \<open>db.Take\<close> is returned as it is.\<close>

definition gormGetOne ::
  "'f sqlBackend \<Rightarrow> ('f, 'x) tableConfig_scheme \<Rightarrow> 'f gomap \<Rightarrow> string \<Rightarrow> 'f gomap list \<Rightarrow>
   dbError + 'f gomap" where
  "gormGetOne be tc flt flds rows =
     (let db = applyGormSoftDeleteFilter newDB tc;
          db = (if flds \<noteq> [] then db\<lparr>selectFields := Some flds\<rparr> else db);
          db = whereFilter flt db
      in if fails be OpTake db then Inl ErrBackend else dbTake be db rows)"

text \<open>\<open>gormAdapter.DeleteOne\<close>: the table after the transaction, \<open>affectedRows\<close> and the
  error. The transaction rolls back when its function returns an error, and
  \<open>affectedRows\<close> is assigned only after the statement succeeded.\<close>

definition gormDeleteOne ::
  "'f sqlBackend \<Rightarrow> ('f, 'x) tableConfig_scheme \<Rightarrow> 'f gomap \<Rightarrow> nat \<Rightarrow> 'f gomap list \<Rightarrow>
   'f gomap list \<times> int \<times> dbError option" where
  "gormDeleteOne be tc flt now rows =
     (let query = whereFilter flt newDB in
      if fails be (if SoftDeleteKey tc \<noteq> [] then OpUpdates else OpDelete) query
      then (rows, 0, Some ErrBackend)
      else (let (rows', affectedRows) =
                  (if SoftDeleteKey tc \<noteq> []
                   then dbUpdates be query [(SoftDeleteKey tc, softDeleteMarker tc now)] rows
                   else dbDelete be query rows)
            in if affectedRows = 0 then
                 (if fails be OpCount (whereFilter flt newDB)
                  then (rows, affectedRows, Some ErrBackend)
                  else if dbCount be (whereFilter flt newDB) rows' = 0
                  then (rows, affectedRows, Some ErrRecordNotFound)
                  else (rows', affectedRows, None))
               else (rows', affectedRows, None)))"

definition gormCountAll ::
  "'f sqlBackend \<Rightarrow> ('f, 'x) tableConfig_scheme \<Rightarrow> 'f gomap list \<Rightarrow> dbError + int" where
  "gormCountAll be tc rows =
     (if fails be OpCount (applyGormSoftDeleteFilter newDB tc) then Inl ErrBackend
      else Inr (dbCount be (applyGormSoftDeleteFilter newDB tc) rows))"

section \<open>The document adapter\<close>

subsection \<open>The collection behind the driver\<close>

text \<open>
  A collection is the list of its documents. A plain value matches a field that holds
  it, and \<open>nil\<close> matches a field that is missing or null; \<open>$exists\<close> tests presence; the
  documents under \<open>$or\<close> are alternatives. The comparison, pattern and membership
  operators, the sort order and the calls the driver answers with an error (\<open>failsM\<close>)
  are the server's: parameters of the model.
\<close>

datatype mongoOp = MFind | MDecode | MCount | MUpdateOne | MDeleteOne | MFindOne

record 'f mongoBackend =
  failsM :: "mongoOp \<Rightarrow> 'f bsonM \<Rightarrow> bool"
  otherMatch :: "string \<Rightarrow> 'f mcond \<Rightarrow> 'f gomap \<Rightarrow> bool"
  sortKeyM :: "string \<Rightarrow> 'f gomap \<Rightarrow> int"

fun leafHolds :: "'f mongoBackend \<Rightarrow> 'f gomap \<Rightarrow> string \<Rightarrow> 'f mcond \<Rightarrow> bool" where
  "leafHolds be doc k (MVal v) =
     (if v = VNil then map_of doc k = None \<or> map_of doc k = Some VNil
      else map_of doc k = Some v)"
| "leafHolds be doc k (MExists b) = ((map_of doc k \<noteq> None) = b)"
| "leafHolds be doc k c = otherMatch be k c doc"

fun mcondHolds :: "'f mongoBackend \<Rightarrow> 'f gomap \<Rightarrow> string \<times> 'f mcond \<Rightarrow> bool" where
  "mcondHolds be doc (k, MOr alts) = list_ex (\<lambda>(f, c). leafHolds be doc f c) alts"
| "mcondHolds be doc (k, c) = leafHolds be doc k c"

definition docMatches :: "'f mongoBackend \<Rightarrow> 'f bsonM \<Rightarrow> 'f gomap \<Rightarrow> bool" where
  "docMatches be flt doc = list_all (mcondHolds be doc) flt"

definition collCount :: "'f mongoBackend \<Rightarrow> 'f bsonM \<Rightarrow> 'f gomap list \<Rightarrow> int" where
  "collCount be flt docs = int (length (filter (docMatches be flt) docs))"

text \<open>\<open>collection.UpdateOne(ctx, filter, {"$set": updateData})\<close>: the first document that
  matches is updated; the result is the collection, \<open>MatchedCount\<close> and \<open>ModifiedCount\<close>.\<close>

fun collUpdateOne ::
  "'f mongoBackend \<Rightarrow> 'f bsonM \<Rightarrow> 'f gomap \<Rightarrow> 'f gomap list \<Rightarrow> 'f gomap list \<times> int \<times> int" where
  "collUpdateOne be flt updateData [] = ([], 0, 0)"
| "collUpdateOne be flt updateData (d # ds) =
     (if docMatches be flt d
      then (setColumns updateData d # ds, 1,
            if list_ex (\<lambda>(k, v). map_of d k \<noteq> Some v) updateData then 1 else 0)
      else (case collUpdateOne be flt updateData ds of
              (ds', matched, modified) \<Rightarrow> (d # ds', matched, modified)))"

text \<open>\<open>collection.DeleteOne\<close>: the first document that matches is removed.\<close>

fun collDeleteOne ::
  "'f mongoBackend \<Rightarrow> 'f bsonM \<Rightarrow> 'f gomap list \<Rightarrow> 'f gomap list \<times> int" where
  "collDeleteOne be flt [] = ([], 0)"
| "collDeleteOne be flt (d # ds) =
     (if docMatches be flt d then (ds, 1)
      else (case collDeleteOne be flt ds of (ds', n) \<Rightarrow> (d # ds', n)))"

definition projectDoc :: "string list option \<Rightarrow> 'f gomap \<Rightarrow> 'f gomap" where
  "projectDoc proj doc =
     (case proj of None \<Rightarrow> doc | Some flds \<Rightarrow> filter (\<lambda>(k, v). k \<in> set flds \<or> k = ''_id'') doc)"

definition collFindOne ::
  "'f mongoBackend \<Rightarrow> 'f bsonM \<Rightarrow> string list option \<Rightarrow> 'f gomap list \<Rightarrow> dbError + 'f gomap" where
  "collFindOne be flt proj docs =
     (case filter (docMatches be flt) docs of
        [] \<Rightarrow> Inl ErrNoDocuments
      | d # _ \<Rightarrow> Inr (projectDoc proj d))"

fun applySort :: "'f mongoBackend \<Rightarrow> (string \<times> int) list \<Rightarrow> 'f gomap list \<Rightarrow> 'f gomap list" where
  "applySort be [] docs = docs"
| "applySort be ((k, dir) # rest) docs =
     (let inner = applySort be rest docs in
      if dir < 0 then rev (sort_key (sortKeyM be k) (rev inner)) else sort_key (sortKeyM be k) inner)"

text \<open>\<open>collection.Find\<close> with sort, projection, skip and limit: the server rejects a
  negative skip, reads limit 0 as no limit and a negative limit as its absolute value.\<close>

definition collFind ::
  "'f mongoBackend \<Rightarrow> 'f bsonM \<Rightarrow> (string \<times> int) list \<Rightarrow> string list option \<Rightarrow> int \<Rightarrow> int \<Rightarrow>
   'f gomap list \<Rightarrow> dbError + 'f gomap list" where
  "collFind be flt srt proj skip limit docs =
     (if skip < 0 then Inl ErrBackend
      else (let sorted = applySort be srt (filter (docMatches be flt) docs);
                skipped = drop (nat skip) sorted;
                page = (if limit = 0 then skipped else take (nat \<bar>limit\<bar>) skipped)
            in Inr (map (projectDoc proj) page)))"

subsection \<open>The adapter\<close>

definition applyMongoSoftDeleteFilter ::
  "'f bsonM \<Rightarrow> ('f, 'x) tableConfig_scheme \<Rightarrow> 'f bsonM" where
  "applyMongoSoftDeleteFilter flt tc =
     (if SoftDeleteKey tc \<noteq> [] then
        (if SoftDeleteType tc = softDeleteTypeTimestamp then
           AList.update ''$or''
             (MOr [(SoftDeleteKey tc, MExists False), (SoftDeleteKey tc, MVal VNil),
                   (SoftDeleteKey tc, MVal (VStr []))]) flt
         else if SoftDeleteType tc = softDeleteTypeBoolean then
           AList.update (SoftDeleteKey tc) (MVal (VBool False)) flt
         else if SoftDeleteType tc = softDeleteTypeInt then
           AList.update (SoftDeleteKey tc) (MVal (VInt 0)) flt
         else
           AList.update ''$or''
             (MOr [(SoftDeleteKey tc, MExists False), (SoftDeleteKey tc, MVal VNil)]) flt)
      else flt)"

text \<open>The primary-key coercion: a string of 24 hexadecimal digits under \<open>_id\<close> becomes an
  object id (\<open>primitive.ObjectIDFromHex\<close> succeeds on exactly those strings).\<close>

definition isHexDigit :: "char \<Rightarrow> bool" where
  "isHexDigit c = (c \<in> set ''0123456789abcdefABCDEF'')"

definition coerceId :: "string \<Rightarrow> 'f val \<Rightarrow> 'f val" where
  "coerceId k v =
     (if k = ''_id'' then
        (case v of
           VStr str \<Rightarrow> if length str = 24 \<and> list_all isHexDigit str then VOid str else v
         | _ \<Rightarrow> v)
      else v)"

fun mongoListLoop ::
  "'f golib \<Rightarrow> urlValues \<Rightarrow> 'f bsonM \<times> bool \<Rightarrow> 'f bsonM \<times> bool" where
  "mongoListLoop lib [] st = st"
| "mongoListLoop lib ((key, vals) # rest) (flt, isFiltered) =
     (if isReservedParam key then mongoListLoop lib rest (flt, isFiltered)
      else (case vals of
              [] \<Rightarrow> mongoListLoop lib rest (flt, isFiltered)
            | v # _ \<Rightarrow>
                mongoListLoop lib rest
                  (case mongoFilterEntry lib key v of
                     None \<Rightarrow> flt
                   | Some (fieldName, c) \<Rightarrow> AList.update fieldName c flt, True)))"

definition mongoListQuery ::
  "'f golib \<Rightarrow> ('f, 'x) tableConfig_scheme \<Rightarrow> listParams \<Rightarrow> 'f bsonM \<times> bool" where
  "mongoListQuery lib tc params =
     mongoListLoop lib (QueryFilters params) (applyMongoSoftDeleteFilter [] tc, False)"

definition mongoSort :: "string \<Rightarrow> (string \<times> int) list" where
  "mongoSort ord =
     concat (map (\<lambda>field.
        let field = trimSpace field in
        if field = [] then []
        else if hasPrefix field ''-'' then [(tl field, - 1)]
        else [(field, 1)]) (splitComma ord))"

definition mongoProjection :: "string \<Rightarrow> string list option" where
  "mongoProjection flds = (if flds \<noteq> [] then Some (map trimSpace (splitComma flds)) else None)"

text \<open>\<open>mongoAdapter.List\<close>: an error of \<open>Find\<close>, of decoding a document of the cursor or
  of \<open>CountDocuments\<close> is returned.\<close>

definition mongoList ::
  "'f mongoBackend \<Rightarrow> 'f golib \<Rightarrow> ('f, 'x) tableConfig_scheme \<Rightarrow> listParams \<Rightarrow> 'f gomap list \<Rightarrow>
   dbError + ('f gomap list \<times> int)" where
  "mongoList be lib tc params docs =
     (let (flt, isFiltered) = mongoListQuery lib tc params;
          srt = (if Order params \<noteq> [] then mongoSort (Order params) else []);
          skip = wrap64 ((Page params - 1) * PageSize params)
      in if failsM be MFind flt then Inl ErrBackend
         else (case collFind be flt srt (mongoProjection (Fields params)) skip (PageSize params)
                  docs of
                 Inl e \<Rightarrow> Inl e
               | Inr results \<Rightarrow>
                   if failsM be MDecode flt then Inl ErrBackend
                   else if isFiltered then
                     (if failsM be MCount flt then Inl ErrBackend
                      else Inr (results, collCount be flt docs))
                   else Inr (results, 0)))"

definition mongoGetOne ::
  "'f mongoBackend \<Rightarrow> ('f, 'x) tableConfig_scheme \<Rightarrow> 'f gomap \<Rightarrow> string \<Rightarrow> 'f gomap list \<Rightarrow>
   dbError + 'f gomap" where
  "mongoGetOne be tc flt flds docs =
     (let flt = (if length flt = 1 then map (\<lambda>(k, v). (k, coerceId k v)) flt else flt);
          filterBson = fold (\<lambda>(k, v) m. AList.update k (MVal v) m) flt [];
          filterBson = applyMongoSoftDeleteFilter filterBson tc
      in if failsM be MFindOne filterBson then Inl ErrBackend
         else collFindOne be filterBson (mongoProjection flds) docs)"

text \<open>\<open>mongoAdapter.DeleteOne\<close>: the collection afterwards, the count and the error.\<close>

definition mongoDeleteOne ::
  "'f mongoBackend \<Rightarrow> ('f, 'x) tableConfig_scheme \<Rightarrow> 'f gomap \<Rightarrow> nat \<Rightarrow> 'f gomap list \<Rightarrow>
   'f gomap list \<times> int \<times> dbError option" where
  "mongoDeleteOne be tc flt now docs =
     (let filterBson = fold (\<lambda>(k, v) m. AList.update k (MVal (coerceId k v)) m) flt []
      in if SoftDeleteKey tc \<noteq> [] then
           (if failsM be MUpdateOne filterBson then (docs, 0, Some ErrBackend)
            else (case collUpdateOne be filterBson
                         [(SoftDeleteKey tc, softDeleteMarker tc now)] docs of
                    (docs', matched, modified) \<Rightarrow>
                      if matched = 0 then
                        (if failsM be MCount filterBson then (docs', 0, Some ErrBackend)
                         else if collCount be filterBson docs' = 0
                         then (docs', 0, Some ErrNoDocuments)
                         else (docs', modified, None))
                      else (docs', modified, None)))
         else
           (if failsM be MDeleteOne filterBson then (docs, 0, Some ErrBackend)
            else (case collDeleteOne be filterBson docs of
                    (docs', deleted) \<Rightarrow>
                      if deleted = 0 then
                        (if failsM be MCount filterBson then (docs', 0, Some ErrBackend)
                         else if collCount be filterBson docs' = 0
                         then (docs', 0, Some ErrNoDocuments)
                         else (docs', deleted, None))
                      else (docs', deleted, None))))"

definition mongoCountAll ::
  "'f mongoBackend \<Rightarrow> ('f, 'x) tableConfig_scheme \<Rightarrow> 'f gomap list \<Rightarrow> dbError + int" where
  "mongoCountAll be tc docs =
     (if failsM be MCount (applyMongoSoftDeleteFilter [] tc) then Inl ErrBackend
      else Inr (collCount be (applyMongoSoftDeleteFilter [] tc) docs))"

section \<open>The REST engine\<close>

text \<open>
  The handlers, after \<open>getAdapterAndTableConfig\<close> has found the adapter and the table.
  A handler's result is the HTTP status it writes and what the property at hand needs
  of the rest: the \<open>total\<close> of a list response, or the call the handler made to the
  adapter (\<open>None\<close> when it answered without calling it). The adapter is the function the
  handler calls.
\<close>

subsection \<open>Helpers\<close>

definition queryFirst :: "urlValues \<Rightarrow> string \<Rightarrow> string option" where
  "queryFirst q key = (case map_of q key of Some (v # _) \<Rightarrow> Some v | _ \<Rightarrow> None)"

text \<open>\<open>c.Query(key)\<close>: the first value of the key, or the empty string.\<close>

definition query :: "urlValues \<Rightarrow> string \<Rightarrow> string" where
  "query q key = (case queryFirst q key of Some v \<Rightarrow> v | None \<Rightarrow> [])"

definition notFoundError :: "dbError \<Rightarrow> bool" where
  "notFoundError e = (e = ErrRecordNotFound \<or> e = ErrNoDocuments)"

definition applyAutoUpdateFields ::
  "nat \<Rightarrow> ('f, 'x) tableConfig_scheme \<Rightarrow> 'f gomap \<Rightarrow> 'f gomap" where
  "applyAutoUpdateFields now tc record =
     (if AutoUpdateFields tc = AUNil \<or> length (GetAutoUpdateFields tc) = 0 then record
      else fold (\<lambda>field r. AList.update field (VTime (int now)) r) (GetAutoUpdateFields tc) record)"

subsection \<open>Listing\<close>

text \<open>Lines 808 to 827 of \<open>handleList\<close>. \<open>c.DefaultQuery\<close> prints the configured default
  with \<open>strconv.Itoa\<close> and \<open>strconv.Atoi\<close> reads it back: the default itself.\<close>

definition handleListParams :: "dmConfig \<Rightarrow> urlValues \<Rightarrow> listParams" where
  "handleListParams cfg q =
     (let page = (case queryFirst q queryParamPage of
                    Some pageStr \<Rightarrow> atoi pageStr | None \<Rightarrow> DefaultPage cfg);
          pageSize = (case queryFirst q queryParamPageSize of
                        Some pageSizeStr \<Rightarrow> atoi pageSizeStr | None \<Rightarrow> DefaultPageSize cfg);
          page = (if page \<le> 0 then DefaultPage cfg else page);
          pageSize = (if pageSize \<le> 0 then DefaultPageSize cfg else pageSize);
          pageSize = (if pageSize > MaxPageSize cfg then MaxPageSize cfg else pageSize)
      in \<lparr>Page = page, PageSize = pageSize, Fields = query q queryParamFields,
          Order = query q queryParamOrder, QueryFilters = q\<rparr>)"

definition isFilteredRequest :: "urlValues \<Rightarrow> bool" where
  "isFilteredRequest q = list_ex (\<lambda>(key, vals). \<not> isReservedParam key) q"

text \<open>The key of the count cache: \<open>fmt.Sprintf("%s_%s", dbName, tableAlias)\<close>.\<close>

definition countKey :: "string \<Rightarrow> string \<Rightarrow> string" where
  "countKey dbName tableAlias = dbName @ ''_'' @ tableAlias"

definition handleList ::
  "(listParams \<Rightarrow> dbError + ('f gomap list \<times> int)) \<Rightarrow> dmConfig \<Rightarrow> (string \<rightharpoonup> int) \<Rightarrow>
   string \<Rightarrow> string \<Rightarrow> urlValues \<Rightarrow> nat \<times> int option" where
  "handleList adapterList cfg tableCounts dbName tableAlias q =
     (let params = handleListParams cfg q;
          isFiltered = isFilteredRequest q
      in case adapterList params of
           Inl e \<Rightarrow> (500, None)
         | Inr (data, totalFromAdapter) \<Rightarrow>
             (200, Some (if \<not> isFiltered then
                           (case tableCounts (countKey dbName tableAlias) of
                              Some cachedCount \<Rightarrow> cachedCount
                            | None \<Rightarrow> totalFromAdapter)
                         else totalFromAdapter)))"

text \<open>\<open>updateAllTableCounts\<close> for the tables of one database: a count that fails leaves
  the cache as it is.\<close>

fun updateTableCounts ::
  "(('f, 'x) tableConfig_scheme \<Rightarrow> dbError + int) \<Rightarrow> string \<Rightarrow> ('f, 'x) tableConfig_scheme list \<Rightarrow>
   (string \<rightharpoonup> int) \<Rightarrow> (string \<rightharpoonup> int)" where
  "updateTableCounts countAll dbName [] tableCounts = tableCounts"
| "updateTableCounts countAll dbName (tableCfg # rest) tableCounts =
     updateTableCounts countAll dbName rest
       (case countAll tableCfg of
          Inl e \<Rightarrow> tableCounts
        | Inr n \<Rightarrow> tableCounts(countKey dbName (Alias tableCfg) \<mapsto> n))"

subsection \<open>One record by key\<close>

text \<open>The lookup filter, built the same way by \<open>handleGetOne\<close>, \<open>handleUpdateOne\<close> and
  \<open>handleDeleteOne\<close>: the status of the early answer, or the filter. The loop
  \<open>filter[f] = vals[i]\<close> over \<open>keyFields\<close> is \<open>AList.updates\<close>.\<close>

definition lookupFilter ::
  "('f, 'x) tableConfig_scheme \<Rightarrow> string \<Rightarrow> string \<Rightarrow> nat + 'f gomap" where
  "lookupFilter tc idValStr keyFieldParam =
     (let keyFields = parseKeyFields keyFieldParam in
      if length keyFields > 0 then
        (if \<not> IsValidKeyCombination tc keyFields then Inl 400
         else (let vals = parseStringList idValStr in
               if length vals \<noteq> length keyFields then Inl 400
               else Inr (AList.updates keyFields (map VStr vals) [])))
      else (if PrimaryKey tc = [] then Inl 500
            else Inr [(PrimaryKey tc, VStr idValStr)]))"

datatype 'f adapterCall =
    CallGetOne "'f gomap" string
  | CallUpdateOne "'f gomap" "'f gomap"
  | CallDeleteOne "'f gomap"



text \<open>The loop \<open>for k := range filter { delete(updateData, k) }\<close>.\<close>

definition removeFilterFields :: "'f gomap \<Rightarrow> 'f gomap \<Rightarrow> 'f gomap" where
  "removeFilterFields flt updateData = fold (\<lambda>(k, v) m. AList.delete k m) flt updateData"

text \<open>\<open>handleUpdateOne\<close>; \<open>body\<close> is what \<open>c.ShouldBindJSON\<close> decodes, \<open>None\<close> when it
  returns an error.\<close>

definition handleUpdateOne ::
  "('f gomap \<Rightarrow> 'f gomap \<Rightarrow> dbError + (int \<times> int)) \<Rightarrow> nat \<Rightarrow> ('f, 'x) tableConfig_scheme \<Rightarrow>
   string \<Rightarrow> urlValues \<Rightarrow> 'f gomap option \<Rightarrow> nat \<times> 'f adapterCall option" where
  "handleUpdateOne adapterUpdateOne now tc idValStr q body =
     (case lookupFilter tc idValStr (query q queryParamKey) of
        Inl code \<Rightarrow> (code, None)
      | Inr flt \<Rightarrow>
          (case body of
             None \<Rightarrow> (400, None)
           | Some updateData \<Rightarrow>
               (let updateData = removeFilterFields flt updateData in
                if length updateData = 0 then (400, None)
                else (let updateData = applyAutoUpdateFields now tc updateData in
                      case adapterUpdateOne flt updateData of
                        Inl e \<Rightarrow>
                          (if notFoundError e then 404 else 500,
                           Some (CallUpdateOne flt updateData))
                      | Inr counts \<Rightarrow> (200, Some (CallUpdateOne flt updateData))))))"



subsection \<open>Default values\<close>

definition defaultValueNow :: string where "defaultValueNow = ''{{now}}''"
definition defaultValueSnowflake :: string where "defaultValueSnowflake = ''{{snowflake}}''"
definition defaultValueULID :: string where "defaultValueULID = ''{{ulid}}''"
definition defaultValueUUIDv4 :: string where "defaultValueUUIDv4 = ''{{uuidv4}}''"
definition defaultValueUUIDv7 :: string where "defaultValueUUIDv7 = ''{{uuidv7}}''"

text \<open>What one call of \<open>applyDefaultValues\<close> draws from outside: the clock and the result
  of each id generator, \<open>None\<close> when the generator returns an error (the caller drops the
  error and keeps the empty string).\<close>

record genEnv =
  clock :: nat
  snowflakeID :: "string option"
  ulidID :: "string option"
  uuidv4ID :: "string option"
  uuidv7ID :: "string option"

definition idOrEmpty :: "string option \<Rightarrow> string" where
  "idOrEmpty r = (case r of None \<Rightarrow> [] | Some s \<Rightarrow> s)"

text \<open>The value stored for a configured default: a template is evaluated, anything else
  is stored as it is.\<close>

definition defaultFor :: "genEnv \<Rightarrow> 'f val \<Rightarrow> 'f val" where
  "defaultFor env defaultValue =
     (case defaultValue of
        VStr strVal \<Rightarrow>
          if strVal = defaultValueNow then VTime (int (clock env))
          else if strVal = defaultValueSnowflake then VStr (idOrEmpty (snowflakeID env))
          else if strVal = defaultValueULID then VStr (idOrEmpty (ulidID env))
          else if strVal = defaultValueUUIDv4 then VStr (idOrEmpty (uuidv4ID env))
          else if strVal = defaultValueUUIDv7 then VStr (idOrEmpty (uuidv7ID env))
          else defaultValue
      | _ \<Rightarrow> defaultValue)"

text \<open>The test \<open>!exists || val == nil || val == ""\<close>.\<close>

definition needsDefault :: "'f val option \<Rightarrow> bool" where
  "needsDefault x = (x = None \<or> x = Some VNil \<or> x = Some (VStr []))"

definition applyDefault :: "genEnv \<Rightarrow> string \<times> 'f val \<Rightarrow> 'f gomap \<Rightarrow> 'f gomap" where
  "applyDefault env entry record =
     (case entry of (field, defaultValue) \<Rightarrow>
        if needsDefault (map_of record field)
        then AList.update field (defaultFor env defaultValue) record
        else record)"

definition applyDefaultValues ::
  "genEnv \<Rightarrow> 'f gomap \<Rightarrow> ('f, 'x) tableConfig_scheme \<Rightarrow> 'f gomap" where
  "applyDefaultValues env record tc =
     (case DefaultValues tc of
        None \<Rightarrow> record
      | Some defaults \<Rightarrow> fold (applyDefault env) defaults record)"

text \<open>Every generator succeeded and returned an id that is not empty.\<close>

definition generatorsSucceed :: "genEnv \<Rightarrow> bool" where
  "generatorsSucceed env =
     (snowflakeID env \<noteq> None \<and> snowflakeID env \<noteq> Some [] \<and>
      ulidID env \<noteq> None \<and> ulidID env \<noteq> Some [] \<and>
      uuidv4ID env \<noteq> None \<and> uuidv4ID env \<noteq> Some [] \<and>
      uuidv7ID env \<noteq> None \<and> uuidv7ID env \<noteq> Some [])"

section \<open>Schema introspection\<close>

subsection \<open>Merging the types sampled for one field of a collection\<close>

text \<open>\<open>mergeSwaggerType\<close>: the chain of tests in the order of the source.\<close>

definition mergeSwaggerType :: "string \<Rightarrow> string \<Rightarrow> string" where
  "mergeSwaggerType a b =
     (if a = b then a
      else if (a = ''integer'' \<and> b = ''number'') \<or> (a = ''number'' \<and> b = ''integer'')
        then ''number''
      else if a = ''string'' \<or> b = ''string'' then ''string''
      else if a = ''object'' \<or> b = ''object'' then ''object''
      else if a = ''array'' \<or> b = ''array'' then ''array''
      else ''string'')"

subsection \<open>Materialising \<open>default_values\<close>\<close>

record 'f FieldMeta =
  Name :: string
  Type :: string
  Nullable :: bool
  IsPrimary :: bool
  IsUnique :: bool
  AutoInc :: bool
  HasDefault :: bool
  Default :: "'f val"
  Comment :: string
  OnUpdate :: bool

text \<open>The type-inference helpers: substring tests on the lower-cased column type.\<close>

definition isStringType :: "string \<Rightarrow> bool" where
  "isStringType typ =
     (let t = toLower typ in
      containsStr t ''char'' \<or> containsStr t ''text'' \<or> containsStr t ''json'' \<or>
      containsStr t ''enum'' \<or> containsStr t ''varchar'')"

definition isIntType :: "string \<Rightarrow> bool" where
  "isIntType typ =
     (let t = toLower typ in
      containsStr t ''int'' \<or> containsStr t ''bigint'' \<or> containsStr t ''tinyint'' \<or>
      containsStr t ''smallint'')"

definition isFloatType :: "string \<Rightarrow> bool" where
  "isFloatType typ =
     (let t = toLower typ in
      containsStr t ''float'' \<or> containsStr t ''double'' \<or> containsStr t ''decimal'' \<or>
      containsStr t ''numeric'' \<or> containsStr t ''real'')"

definition isTimeType :: "string \<Rightarrow> bool" where
  "isTimeType typ =
     (let t = toLower typ in
      containsStr t ''time'' \<or> containsStr t ''date'' \<or> containsStr t ''timestamp'')"

definition isSnowflakeBigIntType :: "string \<Rightarrow> bool" where
  "isSnowflakeBigIntType typ =
     (let t = toLower typ in
      t = ''bigint'' \<or> t = ''bigint unsigned'' \<or> t = ''int8'' \<or> t = ''int64'')"

text \<open>The closed name lists of the field heuristics.\<close>

definition isSoftDelField :: "string \<Rightarrow> bool" where
  "isSoftDelField name =
     (toLower name \<in> set
       [''is_delete'', ''is_deleted'', ''is_remove'', ''is_removed'', ''is_obsolete'',
        ''is_obsoleted'', ''delete_at'', ''deleted_at'', ''delete_time'', ''deleted_time'',
        ''remove_at'', ''removed_at'', ''remove_time'', ''removed_time'',
        ''obsolete_at'', ''obsoleted_at'', ''obsolete_time'', ''obsoleted_time'',
        ''delete_flag'', ''deleted_flag'', ''remove_flag'', ''removed_flag'',
        ''obsolete_flag'', ''obsoleted_flag'', ''gmt_delete'', ''gmt_deleted''])"

definition isAutoUpdateField :: "string \<Rightarrow> bool" where
  "isAutoUpdateField name =
     (toLower name \<in> set
       [''update_at'', ''updated_at'', ''update_time'', ''updated_time'',
        ''modify_at'', ''modified_at'', ''modify_time'', ''modified_time'',
        ''last_update'', ''last_updated'', ''last_modify'', ''last_modified'',
        ''login_time'', ''last_login'', ''checked_at'', ''gmt_update'', ''gmt_updated''])"

definition isResponseReadOnlyField :: "string \<Rightarrow> bool" where
  "isResponseReadOnlyField name =
     (toLower name \<in> set
       [''joined_time'', ''joined_at'', ''join_time'', ''join_at'',
        ''created_time'', ''created_at'', ''create_time'', ''create_at'',
        ''updated_time'', ''updated_at'', ''update_time'', ''update_at'',
        ''login_time'', ''login_at'', ''last_login'', ''gmt_create'', ''gmt_created''])"

text \<open>
  \<open>collectDefaultValueFields\<close>. \<open>collectStep\<close> is the body of the loop over the fields
  as it acts on \<open>defs\<close>; \<open>collectLoop\<close> runs it and keeps \<open>pkField\<close>, the last field
  whose name is the primary key; the function then treats the primary key apart.
\<close>

definition collectStep :: "'f FieldMeta \<Rightarrow> 'f gomap \<Rightarrow> 'f gomap" where
  "collectStep f defs =
     (if HasDefault f then
        (if Default f \<noteq> VNil then AList.update (Name f) (Default f) defs else defs)
      else if OnUpdate f \<or> isAutoUpdateField (Name f) then
        AList.update (Name f) (VStr ''{{now}}'') defs
      else if isSoftDelField (Name f) then
        (if isIntType (Type f) \<or> isFloatType (Type f) then AList.update (Name f) (VInt 0) defs
         else if isStringType (Type f) then AList.update (Name f) (VStr '''') defs
         else AList.update (Name f) (VInt 0) defs)
      else if isResponseReadOnlyField (Name f) then
        (if isTimeType (Type f) then AList.update (Name f) (VStr ''{{now}}'') defs else defs)
      else defs)"

fun collectLoop ::
  "'f FieldMeta list \<Rightarrow> string \<Rightarrow> 'f gomap \<times> 'f FieldMeta option \<Rightarrow>
   'f gomap \<times> 'f FieldMeta option" where
  "collectLoop [] primaryKey st = st"
| "collectLoop (f # fs) primaryKey (defs, pkField) =
     collectLoop fs primaryKey
       (collectStep f defs, if Name f = primaryKey then Some f else pkField)"

definition collectDefaultValueFields :: "'f FieldMeta list \<Rightarrow> string \<Rightarrow> 'f gomap" where
  "collectDefaultValueFields flds primaryKey =
     (case collectLoop flds primaryKey ([], None) of
        (defs, None) \<Rightarrow> defs
      | (defs, Some pkField) \<Rightarrow>
          if \<not> HasDefault pkField \<and> \<not> AutoInc pkField \<and> isSnowflakeBigIntType (Type pkField)
          then AList.update primaryKey (VStr ''{{snowflake}}'') defs
          else AList.delete primaryKey defs)"

text \<open>The field the loop leaves in \<open>pkField\<close>, stated without the loop.\<close>

definition pkFieldOf :: "'f FieldMeta list \<Rightarrow> string \<Rightarrow> 'f FieldMeta option" where
  "pkFieldOf flds primaryKey = find (\<lambda>f. Name f = primaryKey) (rev flds)"


text \<open>A sample field: a big-integer primary key with no default and no auto-increment.\<close>

definition idField :: "unit FieldMeta" where
  "idField = \<lparr>Name = ''id'', Type = ''BIGINT'', Nullable = False, IsPrimary = True,
     IsUnique = False, AutoInc = False, HasDefault = False, Default = VNil, Comment = [],
     OnUpdate = False\<rparr>"

section \<open>Sample data for the closed examples\<close>

text \<open>A table in the manner of the spec's \<open>test/user\<close>: primary key \<open>id\<close>, unique keys
  \<open>email\<close> and (\<open>phone\<close>, \<open>email\<close>), a timestamp soft-delete column and one auto-update
  field.\<close>

definition userTable :: "string tableConfig" where
  "userTable =
     \<lparr>tableConfig.Name = ''user'', Alias = ''user'', PrimaryKey = ''id'',
      UniqueKeys = UKItems [UKScalar ''email'', UKGroup [''phone'', ''email'']],
      DefaultValues = Some [(''created_at'', VStr ''{{now}}''), (''nickname'', VStr [])],
      SoftDeleteKey = ''deleted_at'', SoftDeleteType = ''timestamp'',
      AutoUpdateFields = AUItems [''updated_at'']\<rparr>"

text \<open>The defaults \<open>loadConfigFromDir\<close> sets for \<open>default_page\<close>, \<open>default_page_size\<close> and
  \<open>max_page_size\<close>.\<close>

definition defaultConfig :: dmConfig where
  "defaultConfig = \<lparr>DefaultPage = 1, DefaultPageSize = 10, MaxPageSize = 1000\<rparr>"

text \<open>Backends for the examples: no statement fails, conditions the model leaves to
  the engine are false, and rows sort by the integer in the column.\<close>

definition sampleSql :: "string sqlBackend" where
  "sampleSql =
     \<lparr>foundRows = True, fails = (\<lambda>op db. False), otherCond = (\<lambda>c row. False),
      sortKey = (\<lambda>c row. case col row c of VInt n \<Rightarrow> n | _ \<Rightarrow> 0)\<rparr>"

definition sampleMongo :: "string mongoBackend" where
  "sampleMongo =
     \<lparr>failsM = (\<lambda>op flt. False), otherMatch = (\<lambda>k c doc. False),
      sortKeyM = (\<lambda>c doc. case col doc c of VInt n \<Rightarrow> n | _ \<Rightarrow> 0)\<rparr>"

text \<open>Five users; the third is soft-deleted.\<close>

definition userRow :: "int \<Rightarrow> string \<Rightarrow> string val \<Rightarrow> string gomap" where
  "userRow n email deleted = [(''id'', VInt n), (''email'', VStr email), (''deleted_at'', deleted)]"

definition userRows :: "string gomap list" where
  "userRows =
     [userRow 1 ''a@x'' VNil, userRow 2 ''b@x'' VNil, userRow 3 ''c@x'' (VTime 1600000000),
      userRow 4 ''d@x'' VNil, userRow 5 ''e@x'' VNil]"

text \<open>Two query strings: \<open>page=2&page_size=2\<close> and \<open>email=b@x\<close>.\<close>

definition pageTwo :: urlValues where
  "pageTwo = [(''page'', [''2'']), (''page_size'', [''2''])]"

definition emailFilter :: urlValues where
  "emailFilter = [(''email'', [''b@x''])]"

section \<open>The notions the properties are stated with\<close>

text \<open>The rows of one page, as the claim words it: of the matching rows in order, those
  after the first \<open>(page - 1) * page_size\<close>, at most \<open>page_size\<close> of them.\<close>

definition pageOf :: "int \<Rightarrow> int \<Rightarrow> 'a list \<Rightarrow> 'a list" where
  "pageOf page pageSize xs = take (nat pageSize) (drop (nat ((page - 1) * pageSize)) xs)"

text \<open>The soft-delete predicate of a read, as the spec words it per \<open>softdel_type\<close>: the
  column is NULL or the zero time (timestamp), false (boolean), 0 (int), NULL (any other
  type); every row is live when no soft-delete key is configured.\<close>

definition sqlLive :: "('f, 'x) tableConfig_scheme \<Rightarrow> 'f gomap \<Rightarrow> bool" where
  "sqlLive tc row =
     (SoftDeleteKey tc = [] \<or>
      (if SoftDeleteType tc = ''timestamp''
         then col row (SoftDeleteKey tc) = VNil \<or> sqlEq (col row (SoftDeleteKey tc)) zeroTime
       else if SoftDeleteType tc = ''boolean'' then sqlEq (col row (SoftDeleteKey tc)) (VBool False)
       else if SoftDeleteType tc = ''int'' then sqlEq (col row (SoftDeleteKey tc)) (VInt 0)
       else col row (SoftDeleteKey tc) = VNil))"

text \<open>The same for a document: the field is missing, null or the empty string
  (timestamp), false (boolean), 0 (int), missing or null (any other type).\<close>

definition docLive :: "('f, 'x) tableConfig_scheme \<Rightarrow> 'f gomap \<Rightarrow> bool" where
  "docLive tc doc =
     (SoftDeleteKey tc = [] \<or>
      (if SoftDeleteType tc = ''timestamp''
         then map_of doc (SoftDeleteKey tc) = None \<or> map_of doc (SoftDeleteKey tc) = Some VNil \<or>
              map_of doc (SoftDeleteKey tc) = Some (VStr [])
       else if SoftDeleteType tc = ''boolean''
         then map_of doc (SoftDeleteKey tc) = Some (VBool False)
       else if SoftDeleteType tc = ''int'' then map_of doc (SoftDeleteKey tc) = Some (VInt 0)
       else map_of doc (SoftDeleteKey tc) = None \<or> map_of doc (SoftDeleteKey tc) = Some VNil))"

text \<open>The filter conditions of a query string: one for each parameter that is not
  \<open>page\<close>, \<open>page_size\<close>, \<open>fields\<close> or \<open>order\<close> and whose operator is known, from its first
  value.\<close>

definition gormFilterConds :: "'f golib \<Rightarrow> urlValues \<Rightarrow> 'f gcond list" where
  "gormFilterConds lib q =
     concat (map (\<lambda>(key, vals).
        if isReservedParam key then []
        else (case vals of
                [] \<Rightarrow> []
              | v # _ \<Rightarrow> (case gormFilterCond lib key v of None \<Rightarrow> [] | Some c \<Rightarrow> [c]))) q)"

definition mongoFilterEntries :: "'f golib \<Rightarrow> urlValues \<Rightarrow> (string \<times> 'f mcond) list" where
  "mongoFilterEntries lib q =
     concat (map (\<lambda>(key, vals).
        if isReservedParam key then []
        else (case vals of
                [] \<Rightarrow> []
              | v # _ \<Rightarrow> (case mongoFilterEntry lib key v of None \<Rightarrow> [] | Some e \<Rightarrow> [e]))) q)"

section \<open>More sample data\<close>

text \<open>A backend whose \<open>Find\<close> fails, and the query string \<open>email=c@x\<close>, which names the
  soft-deleted user.\<close>

definition failingSql :: "string sqlBackend" where
  "failingSql = sampleSql\<lparr>fails := (\<lambda>op db. op = OpFind)\<rparr>"

definition deletedEmailFilter :: urlValues where
  "deletedEmailFilter = [(''email'', [''c@x''])]"

text \<open>Two moments of the environment: the clock and the ids the generators return.\<close>

definition sampleEnv :: genEnv where
  "sampleEnv =
     \<lparr>clock = 1700000000, snowflakeID = Some ''1541815603606036480'',
      ulidID = Some ''01ARZ3NDEKTSV4RRFFQ69G5FAV'',
      uuidv4ID = Some ''f47ac10b-58cc-4372-a567-0e02b2c3d479'',
      uuidv7ID = Some ''018bcfe5-6800-7c3d-8e4f-5a6b7c8d9e0f''\<rparr>"

definition laterEnv :: genEnv where
  "laterEnv =
     \<lparr>clock = 1700000060, snowflakeID = Some ''1541815855264468992'',
      ulidID = Some ''01ARZ3NDEKTSV4RRFFQ69G5FAW'',
      uuidv4ID = Some ''0b9f6c1e-7d2a-4e8b-9c3f-1a2b3c4d5e6f'',
      uuidv7ID = Some ''018bcfe6-5260-7a1b-9c2d-3e4f5a6b7c8d''\<rparr>"

text \<open>An environment in which the ULID generator returns an error, and a table whose
  primary key defaults to a ULID.\<close>

definition brokenEnv :: genEnv where
  "brokenEnv = sampleEnv\<lparr>ulidID := None\<rparr>"

definition ulidTable :: "string tableConfig" where
  "ulidTable = userTable\<lparr>DefaultValues := Some [(''id'', VStr ''{{ulid}}'')]\<rparr>"

section \<open>Properties\<close>

subsection \<open>The type-merge function\<close>

text \<open>
  C9, as stated, asks for \<open>object\<close> whenever either side is \<open>object\<close> and for \<open>string\<close>
  whenever either side is \<open>string\<close>. On the pair string / object the code answers
  \<open>string\<close>, so the part "object when either side is object" fails there.
\<close>

theorem mergeSwaggerType_string_object_counterexample:
  "mergeSwaggerType ''string'' ''object'' = ''string'' \<and>
   mergeSwaggerType ''string'' ''object'' \<noteq> ''object''"
  by (simp add: mergeSwaggerType_def)

text \<open>
  C9, amended: equal types merge to themselves and integer with number gives number;
  for any other pair the rules apply in the order string, object, array: string when
  either side is string, otherwise object when either side is object, otherwise array
  when either side is array, and string when none of the three occurs.
\<close>

theorem mergeSwaggerType_priority:
  "mergeSwaggerType a a = a \<and>
   mergeSwaggerType ''integer'' ''number'' = ''number'' \<and>
   mergeSwaggerType ''number'' ''integer'' = ''number'' \<and>
   (a \<noteq> b \<and> {a, b} \<noteq> {''integer'', ''number''} \<longrightarrow>
      (a = ''string'' \<or> b = ''string'' \<longrightarrow> mergeSwaggerType a b = ''string'') \<and>
      (a \<noteq> ''string'' \<and> b \<noteq> ''string'' \<and> (a = ''object'' \<or> b = ''object'') \<longrightarrow>
         mergeSwaggerType a b = ''object'') \<and>
      (a \<noteq> ''string'' \<and> b \<noteq> ''string'' \<and> a \<noteq> ''object'' \<and> b \<noteq> ''object'' \<and>
       (a = ''array'' \<or> b = ''array'') \<longrightarrow> mergeSwaggerType a b = ''array'') \<and>
      (a \<noteq> ''object'' \<and> b \<noteq> ''object'' \<and> a \<noteq> ''array'' \<and> b \<noteq> ''array'' \<longrightarrow>
         mergeSwaggerType a b = ''string''))"
  by (auto simp: mergeSwaggerType_def doubleton_eq_iff)

theorem mergeSwaggerType_priority_witness:
  "mergeSwaggerType ''boolean'' ''boolean'' = ''boolean'' \<and>
   mergeSwaggerType ''object'' ''string'' = ''string'' \<and>
   mergeSwaggerType ''array'' ''object'' = ''object'' \<and>
   mergeSwaggerType ''integer'' ''array'' = ''array'' \<and>
   mergeSwaggerType ''boolean'' ''integer'' = ''string''"
  using mergeSwaggerType_priority [of "''boolean''" "''boolean''"]
    mergeSwaggerType_priority [of "''object''" "''string''"]
    mergeSwaggerType_priority [of "''array''" "''object''"]
    mergeSwaggerType_priority [of "''integer''" "''array''"]
    mergeSwaggerType_priority [of "''boolean''" "''integer''"]
  by (simp add: doubleton_eq_iff)

subsection \<open>The primary key in the materialised defaults\<close>

lemma collectStep_keys:
  "map_of (collectStep f defs) k \<noteq> None \<Longrightarrow> k = Name f \<or> map_of defs k \<noteq> None"
  by (auto simp: collectStep_def update_conv' split: if_splits)

lemma find_append_last:
  "find P (xs @ [x]) = (case find P xs of None \<Rightarrow> (if P x then Some x else None) | Some y \<Rightarrow> Some y)"
  by (induction xs) auto

lemma collectLoop_pk:
  "snd (collectLoop fs pk (defs, pkf)) =
     (case find (\<lambda>f. Name f = pk) (rev fs) of None \<Rightarrow> pkf | Some p \<Rightarrow> Some p)"
  by (induction fs arbitrary: defs pkf) (auto simp: find_append_last split: option.splits)

lemma collectLoop_keys:
  "map_of (fst (collectLoop fs pk (defs, pkf))) k \<noteq> None \<Longrightarrow>
     k \<in> Name ` set fs \<or> map_of defs k \<noteq> None"
proof (induction fs arbitrary: defs pkf)
  case Nil
  then show ?case by simp
next
  case (Cons f fs)
  from Cons.prems have "map_of (fst (collectLoop fs pk (collectStep f defs, if Name f = pk then Some f else pkf))) k \<noteq> None"
    by simp
  from Cons.IH [OF this] show ?case
    using collectStep_keys [of f defs k] by auto
qed


text \<open>
  C8, as stated, gives every primary key of a big-integer type that has no default and no
  auto-increment the template \<open>{{snowflake}}\<close>. The code asks for one of four exact
  spellings: a primary key whose column type reads \<open>bigint(20)\<close>, which the integer test
  \<open>isIntType\<close> of the same file accepts, gets no entry.
\<close>

theorem collectDefaultValueFields_bigint20_counterexample:
  "map_of (collectDefaultValueFields [idField\<lparr>Type := ''bigint(20)''\<rparr>] ''id'') ''id'' = None \<and>
   \<not> HasDefault (idField\<lparr>Type := ''bigint(20)''\<rparr>) \<and>
   \<not> AutoInc (idField\<lparr>Type := ''bigint(20)''\<rparr>) \<and>
   isIntType ''bigint(20)'' \<and> containsStr (toLower ''bigint(20)'') ''bigint''"
  by (simp add: collectDefaultValueFields_def collectStep_def idField_def
      isSnowflakeBigIntType_def isIntType_def isAutoUpdateField_def isSoftDelField_def
      isResponseReadOnlyField_def toLower_def lowerChar_def)

text \<open>
  C8, amended: the materialised \<open>default_values\<close> maps the primary key to \<open>{{snowflake}}\<close>
  exactly when the primary-key field has neither a default nor auto-increment and its
  type is, ignoring the case of ASCII letters, one of \<open>bigint\<close>, \<open>bigint unsigned\<close>, \<open>int8\<close>
  and \<open>int64\<close>; in every other case (any other spelling of the type, a default, an
  auto-increment, or no field with the primary key's name) the primary key has no entry.
\<close>

theorem collectDefaultValueFields_primary_key:
  "map_of (collectDefaultValueFields flds primaryKey) primaryKey =
     (case pkFieldOf flds primaryKey of
        None \<Rightarrow> None
      | Some p \<Rightarrow>
          if \<not> HasDefault p \<and> \<not> AutoInc p \<and>
             toLower (Type p) \<in> {''bigint'', ''bigint unsigned'', ''int8'', ''int64''}
          then Some (VStr ''{{snowflake}}'') else None)"
proof -
  obtain defs pkf where st: "collectLoop flds primaryKey ([], None) = (defs, pkf)"
    by (cases "collectLoop flds primaryKey ([], None)")
  have pk: "pkf = pkFieldOf flds primaryKey"
    using collectLoop_pk [of flds primaryKey "[]" None] st
    by (simp add: pkFieldOf_def split: option.splits)
  show ?thesis
  proof (cases pkf)
    case None
    then have "\<forall>f\<in>set flds. Name f \<noteq> primaryKey"
      using pk by (simp add: pkFieldOf_def find_None_iff)
    then have "map_of defs primaryKey = None"
      using collectLoop_keys [of flds primaryKey "[]" None primaryKey] st
      by (cases "map_of defs primaryKey") force+
    then show ?thesis using None pk st
      by (simp add: collectDefaultValueFields_def)
  next
    case (Some p)
    then show ?thesis using pk st
      by (auto simp: collectDefaultValueFields_def update_conv' delete_conv'
          isSnowflakeBigIntType_def Let_def)
  qed
qed

theorem collectDefaultValueFields_primary_key_witness:
  "map_of (collectDefaultValueFields
       [idField, idField\<lparr>Name := ''updated_at'', Type := ''datetime''\<rparr>] ''id'') ''id'' =
     Some (VStr ''{{snowflake}}'') \<and>
   map_of (collectDefaultValueFields [idField\<lparr>Type := ''bigint unsigned''\<rparr>] ''id'') ''id'' =
     Some (VStr ''{{snowflake}}'') \<and>
   map_of (collectDefaultValueFields [idField\<lparr>AutoInc := True\<rparr>] ''id'') ''id'' = None \<and>
   map_of (collectDefaultValueFields [idField\<lparr>Type := ''UInt64''\<rparr>] ''id'') ''id'' = None \<and>
   map_of (collectDefaultValueFields [idField\<lparr>Name := ''uid''\<rparr>] ''id'') ''id'' = None"
  using collectDefaultValueFields_primary_key
      [of "[idField, idField\<lparr>Name := ''updated_at'', Type := ''datetime''\<rparr>]" "''id''"]
    collectDefaultValueFields_primary_key [of "[idField\<lparr>Type := ''bigint unsigned''\<rparr>]" "''id''"]
    collectDefaultValueFields_primary_key [of "[idField\<lparr>AutoInc := True\<rparr>]" "''id''"]
    collectDefaultValueFields_primary_key [of "[idField\<lparr>Type := ''UInt64''\<rparr>]" "''id''"]
    collectDefaultValueFields_primary_key [of "[idField\<lparr>Name := ''uid''\<rparr>]" "''id''"]
  by (simp add: pkFieldOf_def idField_def toLower_def lowerChar_def)

subsection \<open>Parsing the values of \<open>__in\<close> and \<open>__between\<close>\<close>

lemma op_key_not_reserved:
  "splitKey key = (fieldName, op) \<Longrightarrow> op \<noteq> ''='' \<Longrightarrow> \<not> isReservedParam key"
  by (auto simp: isReservedParam_def queryParamPage_def queryParamPageSize_def
      queryParamFields_def queryParamOrder_def splitKey_def)

text \<open>
  C3, as stated, has the elements of an \<open>__in\<close> value parsed on the relational adapter
  as well. There the membership predicate is bound to \<open>stringVals\<close>: for \<open>age__in=1,2\<close>
  the strings "1" and "2", not the integers 1 and 2 that \<open>parseFilterValues\<close> returns.
\<close>

theorem gormList_in_unparsed_counterexample:
  "gormFilterCond sampleLib ''age__in'' ''1,2'' = Some (CIn ''age'' [VStr ''1'', VStr ''2'']) \<and>
   parseFilterValues sampleLib ''1,2'' = [VInt 1, VInt 2] \<and>
   gormFilterCond sampleLib ''age__in'' ''1,2'' \<noteq>
     Some (CIn ''age'' (parseFilterValues sampleLib ''1,2''))"
  by (simp add: gormFilterCond_def splitKey_def parseStringList_def parseFilterValues_def
      parseFilterValue_def parseInt64_def parseSigned_def digitVal_def trimSpace_def
      isSpace_def minInt64_def maxInt64_def)

text \<open>
  C3, amended: a filter value is tried as integer, then float, then boolean, then kept
  as the raw string; \<open>parseFilterValues\<close> splits on commas and parses each trimmed piece
  on its own. The document adapter uses these parsed pieces for \<open>__in\<close> and, when there
  are exactly two, for \<open>__between\<close>; the relational adapter uses them for \<open>__between\<close>
  only, and binds \<open>__in\<close> to the comma-split pieces as strings, neither trimmed nor
  parsed.
\<close>

theorem filter_values_parsed:
  "(parseInt64 s = Some i \<longrightarrow> parseFilterValue lib s = VInt i) \<and>
   (parseInt64 s = None \<and> parseFloat lib s = Some f \<longrightarrow> parseFilterValue lib s = VFloat f) \<and>
   (parseInt64 s = None \<and> parseFloat lib s = None \<and> parseBool s = Some b \<longrightarrow>
      parseFilterValue lib s = VBool b) \<and>
   (parseInt64 s = None \<and> parseFloat lib s = None \<and> parseBool s = None \<longrightarrow>
      parseFilterValue lib s = VStr s) \<and>
   parseFilterValues lib v = map (\<lambda>part. parseFilterValue lib (trimSpace part)) (splitComma v) \<and>
   (splitKey key = (fieldName, ''__in'') \<longrightarrow>
      mongoFilterEntry lib key v = Some (fieldName, MIn (parseFilterValues lib v)) \<and>
      mongoListLoop lib [(key, v # vs)] (flt, fl) =
        (AList.update fieldName (MIn (parseFilterValues lib v)) flt, True) \<and>
      gormFilterCond lib key v = Some (CIn fieldName (map VStr (parseStringList v))) \<and>
      gormListLoop lib [(key, v # vs)] (db, fl) =
        (dbWhere (CIn fieldName (map VStr (parseStringList v))) db, True)) \<and>
   (splitKey key = (fieldName, ''__between'') \<and> parseFilterValues lib v = [lo, hi] \<longrightarrow>
      mongoFilterEntry lib key v = Some (fieldName, MGteLte lo hi) \<and>
      mongoListLoop lib [(key, v # vs)] (flt, fl) =
        (AList.update fieldName (MGteLte lo hi) flt, True) \<and>
      gormFilterCond lib key v = Some (CBetween fieldName lo hi) \<and>
      gormListLoop lib [(key, v # vs)] (db, fl) = (dbWhere (CBetween fieldName lo hi) db, True))"
proof -
  have r1: "splitKey key = (fieldName, ''__in'') \<Longrightarrow> \<not> isReservedParam key"
    using op_key_not_reserved [of key fieldName "''__in''"] by simp
  have r2: "splitKey key = (fieldName, ''__between'') \<Longrightarrow> \<not> isReservedParam key"
    using op_key_not_reserved [of key fieldName "''__between''"] by simp
  have p: "(parseInt64 s = Some i \<longrightarrow> parseFilterValue lib s = VInt i) \<and>
   (parseInt64 s = None \<and> parseFloat lib s = Some f \<longrightarrow> parseFilterValue lib s = VFloat f) \<and>
   (parseInt64 s = None \<and> parseFloat lib s = None \<and> parseBool s = Some b \<longrightarrow>
      parseFilterValue lib s = VBool b) \<and>
   (parseInt64 s = None \<and> parseFloat lib s = None \<and> parseBool s = None \<longrightarrow>
      parseFilterValue lib s = VStr s)"
    by (simp add: parseFilterValue_def)
  have m_in: "splitKey key = (fieldName, ''__in'') \<Longrightarrow>
      mongoFilterEntry lib key v = Some (fieldName, MIn (parseFilterValues lib v))"
    by (simp add: mongoFilterEntry_def)
  have g_in: "splitKey key = (fieldName, ''__in'') \<Longrightarrow>
      gormFilterCond lib key v = Some (CIn fieldName (map VStr (parseStringList v)))"
    by (simp add: gormFilterCond_def)
  have m_bt: "splitKey key = (fieldName, ''__between'') \<Longrightarrow> parseFilterValues lib v = [lo, hi] \<Longrightarrow>
      mongoFilterEntry lib key v = Some (fieldName, MGteLte lo hi)"
    by (simp add: mongoFilterEntry_def)
  have g_bt: "splitKey key = (fieldName, ''__between'') \<Longrightarrow> parseFilterValues lib v = [lo, hi] \<Longrightarrow>
      gormFilterCond lib key v = Some (CBetween fieldName lo hi)"
    by (simp add: gormFilterCond_def)
  show ?thesis
    using p r1 r2 m_in g_in m_bt g_bt
    by (simp add: parseFilterValues_def)
qed

theorem filter_values_parsed_witness:
  "parseFilterValue sampleLib ''42'' = VInt 42 \<and>
   parseFilterValue sampleLib ''1.5'' = VFloat ''1.5'' \<and>
   parseFilterValue sampleLib ''true'' = VBool True \<and>
   parseFilterValue sampleLib ''bob'' = VStr ''bob'' \<and>
   mongoFilterEntry sampleLib ''age__in'' ''1, x'' = Some (''age'', MIn [VInt 1, VStr ''x'']) \<and>
   gormFilterCond sampleLib ''age__in'' ''1, x'' = Some (CIn ''age'' [VStr ''1'', VStr '' x'']) \<and>
   mongoFilterEntry sampleLib ''age__between'' ''2,10'' = Some (''age'', MGteLte (VInt 2) (VInt 10)) \<and>
   gormFilterCond sampleLib ''age__between'' ''2,10'' = Some (CBetween ''age'' (VInt 2) (VInt 10))"
proof -
  have k1: "splitKey ''age__in'' = (''age'', ''__in'')" by (simp add: splitKey_def)
  have k2: "splitKey ''age__between'' = (''age'', ''__between'')" by (simp add: splitKey_def)
  have i42: "parseInt64 ''42'' = Some 42"
    by (simp add: parseInt64_def parseSigned_def digitVal_def minInt64_def maxInt64_def)
  have i15: "parseInt64 ''1.5'' = None"
    by (simp add: parseInt64_def parseSigned_def digitVal_def)
  have it: "parseInt64 ''true'' = None"
    by (simp add: parseInt64_def parseSigned_def digitVal_def)
  have ib: "parseInt64 ''bob'' = None"
    by (simp add: parseInt64_def parseSigned_def digitVal_def)
  have f15: "parseFloat sampleLib ''1.5'' = Some ''1.5''" by (simp add: sampleLib_def)
  have ft: "parseFloat sampleLib ''true'' = None" by (simp add: sampleLib_def)
  have fb: "parseFloat sampleLib ''bob'' = None" by (simp add: sampleLib_def)
  have bt: "parseBool ''true'' = Some True" by (simp add: parseBool_def)
  have bb: "parseBool ''bob'' = None" by (simp add: parseBool_def)
  have v1: "parseFilterValues sampleLib ''1, x'' = [VInt 1, VStr ''x'']"
    by (simp add: parseFilterValues_def parseFilterValue_def parseInt64_def parseSigned_def
        digitVal_def trimSpace_def isSpace_def minInt64_def maxInt64_def sampleLib_def parseBool_def)
  have v2: "parseFilterValues sampleLib ''2,10'' = [VInt 2, VInt 10]"
    by (simp add: parseFilterValues_def parseFilterValue_def parseInt64_def parseSigned_def
        digitVal_def trimSpace_def isSpace_def minInt64_def maxInt64_def)
  have s1: "parseStringList ''1, x'' = [''1'', '' x'']" by (simp add: parseStringList_def)
  note T = filter_values_parsed
  have c1: "parseFilterValue sampleLib ''42'' = VInt 42"
    using T [where s = "''42''" and i = 42 and lib = sampleLib, THEN conjunct1] i42 by simp
  have c2: "parseFilterValue sampleLib ''1.5'' = VFloat ''1.5''"
    using T [where s = "''1.5''" and f = "''1.5''" and lib = sampleLib,
        THEN conjunct2, THEN conjunct1] i15 f15 by simp
  have c3: "parseFilterValue sampleLib ''true'' = VBool True"
    using T [where s = "''true''" and b = True and lib = sampleLib,
        THEN conjunct2, THEN conjunct2, THEN conjunct1] it ft bt by simp
  have c4: "parseFilterValue sampleLib ''bob'' = VStr ''bob''"
    using T [where s = "''bob''" and lib = sampleLib,
        THEN conjunct2, THEN conjunct2, THEN conjunct2, THEN conjunct1] ib fb bb by simp
  have c5: "mongoFilterEntry sampleLib ''age__in'' ''1, x'' = Some (''age'', MIn [VInt 1, VStr ''x'']) \<and>
     gormFilterCond sampleLib ''age__in'' ''1, x'' = Some (CIn ''age'' [VStr ''1'', VStr '' x''])"
    using T [where lib = sampleLib and key = "''age__in''" and fieldName = "''age''"
        and v = "''1, x''", THEN conjunct2, THEN conjunct2, THEN conjunct2, THEN conjunct2,
        THEN conjunct2, THEN conjunct1] k1 v1 s1 by simp
  have c6: "mongoFilterEntry sampleLib ''age__between'' ''2,10'' =
       Some (''age'', MGteLte (VInt 2) (VInt 10)) \<and>
     gormFilterCond sampleLib ''age__between'' ''2,10'' =
       Some (CBetween ''age'' (VInt 2) (VInt 10))"
    using T [where lib = sampleLib and key = "''age__between''" and fieldName = "''age''"
        and v = "''2,10''" and lo = "VInt 2" and hi = "VInt 10", THEN conjunct2,
        THEN conjunct2, THEN conjunct2, THEN conjunct2, THEN conjunct2, THEN conjunct2]
      k2 v2 by simp
  show ?thesis using c1 c2 c3 c4 c5 c6 by simp
qed

subsection \<open>Composite-key lookup\<close>






lemma dom_delete: "fst ` set (AList.delete k d) = fst ` set d - {k}"
  by (auto simp: AList.delete_eq image_iff)

lemma dom_removeFilterFields:
  "fst ` set (removeFilterFields flt d) = fst ` set d - fst ` set flt"
  unfolding removeFilterFields_def
proof (induction flt arbitrary: d)
  case Nil
  then show ?case by simp
next
  case (Cons a flt)
  obtain k v where a: "a = (k, v)" by (cases a)
  have "fst ` set (fold (\<lambda>(k, v) m. AList.delete k m) (a # flt) d) =
        fst ` set (AList.delete k d) - fst ` set flt"
    using Cons.IH [of "AList.delete k d"] a by simp
  also have "\<dots> = (fst ` set d - {k}) - fst ` set flt"
    by (simp only: dom_delete)
  also have "\<dots> = fst ` set d - fst ` set (a # flt)"
    using a by auto
  finally show ?case .
qed



lemmas eval_strings = trimSpace_def isSpace_def parseKeyFields_def parseStringList_def
  query_def queryFirst_def queryParamKey_def queryParamFields_def


subsection \<open>Updating one record\<close>

text \<open>
  C10: \<open>handleUpdateOne\<close> removes every key of the lookup filter from the payload first;
  when nothing is left it answers 400 and does not call the adapter, whatever the table's
  auto-update fields are; otherwise it stamps the auto-update fields on what is left and
  calls the adapter with that.
\<close>

theorem update_one_empty_payload:
  assumes "lookupFilter tc idValStr (query q queryParamKey) = Inr flt"
    and "body = Some updateData"
  shows "fst ` set (removeFilterFields flt updateData) \<inter> fst ` set flt = {} \<and>
         (fst ` set updateData \<subseteq> fst ` set flt \<longrightarrow>
            handleUpdateOne u now tc idValStr q body = (400, None)) \<and>
         (\<not> fst ` set updateData \<subseteq> fst ` set flt \<longrightarrow>
            snd (handleUpdateOne u now tc idValStr q body) =
              Some (CallUpdateOne flt
                (applyAutoUpdateFields now tc (removeFilterFields flt updateData))))"
proof -
  let ?stripped = "removeFilterFields flt updateData"
  have dom: "fst ` set ?stripped = fst ` set updateData - fst ` set flt"
    by (rule dom_removeFilterFields)
  have empty: "(?stripped = []) = (fst ` set updateData \<subseteq> fst ` set flt)"
  proof -
    have "(?stripped = []) = (fst ` set ?stripped = {})" by simp
    also have "\<dots> = (fst ` set updateData - fst ` set flt = {})" by (simp only: dom)
    also have "\<dots> = (fst ` set updateData \<subseteq> fst ` set flt)" by auto
    finally show ?thesis .
  qed
  have h: "handleUpdateOne u now tc idValStr q body =
      (if ?stripped = [] then (400, None)
       else (case u flt (applyAutoUpdateFields now tc ?stripped) of
               Inl e \<Rightarrow> (if notFoundError e then 404 else 500,
                         Some (CallUpdateOne flt (applyAutoUpdateFields now tc ?stripped)))
             | Inr counts \<Rightarrow>
                 (200, Some (CallUpdateOne flt (applyAutoUpdateFields now tc ?stripped)))))"
    using assms by (simp add: handleUpdateOne_def Let_def)
  show ?thesis
    using dom empty h by (auto split: sum.splits)
qed

theorem update_one_empty_payload_witness:
  "handleUpdateOne (\<lambda>flt d. Inr (1, 1)) 1700000000 userTable ''7'' []
       (Some [(''id'', VInt 7)]) = (400, None) \<and>
   GetAutoUpdateFields userTable = [''updated_at''] \<and>
   snd (handleUpdateOne (\<lambda>flt d. Inr (1, 1)) 1700000000 userTable ''7'' []
       (Some [(''id'', VInt 7), (''age'', VInt 3)])) =
     Some (CallUpdateOne [(''id'', VStr ''7'')]
        [(''age'', VInt 3), (''updated_at'', VTime 1700000000)])"
proof -
  have lf: "lookupFilter userTable ''7'' (query [] queryParamKey) = Inr [(''id'', VStr ''7'')]"
    by (simp add: lookupFilter_def eval_strings userTable_def)
  have au: "GetAutoUpdateFields userTable = [''updated_at'']"
    by (simp add: GetAutoUpdateFields_def userTable_def)
  have ap: "applyAutoUpdateFields 1700000000 userTable
       (removeFilterFields [(''id'', VStr ''7'')] [(''id'', VInt 7), (''age'', VInt 3)]) =
     [(''age'', VInt 3), (''updated_at'', VTime 1700000000)]"
    by (simp add: applyAutoUpdateFields_def au removeFilterFields_def) (simp add: userTable_def)
  note T1 = update_one_empty_payload [OF lf refl, where updateData = "[(''id'', VInt 7)]"
      and u = "\<lambda>flt d. Inr (1, 1)" and now = 1700000000]
  note T2 = update_one_empty_payload [OF lf refl,
      where updateData = "[(''id'', VInt 7), (''age'', VInt 3)]"
      and u = "\<lambda>flt d. Inr (1, 1)" and now = 1700000000]
  show ?thesis using T1 T2 au ap by simp
qed

subsection \<open>Pagination\<close>

lemma wrap64_id: "0 \<le> x \<Longrightarrow> x \<le> maxInt64 \<Longrightarrow> wrap64 x = x"
  by (simp add: wrap64_def maxInt64_def)

text \<open>
  C6, as stated, has \<open>page_size\<close> inside the interval from 1 to \<open>max_page_size\<close> on every
  list request. The lower end is not a clamp to 1 but the fall-back to the configured
  default: with \<open>default_page_size: 0\<close> a request without \<open>page_size\<close> runs with page
  size 0.
\<close>

theorem list_page_size_counterexample:
  "PageSize (handleListParams \<lparr>DefaultPage = 1, DefaultPageSize = 0, MaxPageSize = 1000\<rparr> []) = 0 \<and>
   \<not> 1 \<le> PageSize (handleListParams \<lparr>DefaultPage = 1, DefaultPageSize = 0, MaxPageSize = 1000\<rparr> [])"
  by (simp add: handleListParams_def queryFirst_def)

lemma handleListParams_bounds:
  assumes "1 \<le> DefaultPage cfg" "1 \<le> DefaultPageSize cfg" "1 \<le> MaxPageSize cfg"
  shows "1 \<le> Page (handleListParams cfg q) \<and> 1 \<le> PageSize (handleListParams cfg q) \<and>
         PageSize (handleListParams cfg q) \<le> MaxPageSize cfg"
  using assms by (auto simp: handleListParams_def Let_def split: option.splits)

text \<open>
  C6, amended. For every list request, \<open>page\<close> is the request's value when that is
  positive and \<open>default_page\<close> otherwise, and \<open>page_size\<close> is the request's value when that
  is positive and \<open>default_page_size\<close> otherwise, capped at \<open>max_page_size\<close>. When
  \<open>default_page\<close>, \<open>default_page_size\<close> and \<open>max_page_size\<close> are at least 1, \<open>page\<close> is at least
  1 and \<open>page_size\<close> lies between 1 and \<open>max_page_size\<close>; and when moreover
  \<open>(page - 1) * page_size\<close> fits a signed 64-bit integer, a list call of either adapter
  that returns rows returns the page: of the matching rows in order, the \<open>page_size\<close>
  that follow the first \<open>(page - 1) * page_size\<close>; and the call does return rows when the
  backend reports no error.
\<close>

theorem list_pagination:
  fixes cfg q
  defines "params \<equiv> handleListParams cfg q"
  shows
   "Page params =
      (case queryFirst q queryParamPage of
         None \<Rightarrow> DefaultPage cfg
       | Some s \<Rightarrow> if atoi s \<le> 0 then DefaultPage cfg else atoi s) \<and>
    PageSize params =
      min (MaxPageSize cfg)
        (case queryFirst q queryParamPageSize of
           None \<Rightarrow> DefaultPageSize cfg
         | Some s \<Rightarrow> if atoi s \<le> 0 then DefaultPageSize cfg else atoi s) \<and>
    (1 \<le> DefaultPage cfg \<and> 1 \<le> DefaultPageSize cfg \<and> 1 \<le> MaxPageSize cfg \<longrightarrow>
       1 \<le> Page params \<and> 1 \<le> PageSize params \<and> PageSize params \<le> MaxPageSize cfg \<and>
       ((Page params - 1) * PageSize params \<le> maxInt64 \<longrightarrow>
          (\<forall>data total. gormList be lib tc params rows = Inr (data, total) \<longrightarrow>
             data = map (projectRow (selectFields (gormOrderSelect params (fst (gormListQuery lib tc params)))))
                      (pageOf (Page params) (PageSize params)
                         (dbOrdered be (gormOrderSelect params (fst (gormListQuery lib tc params))) rows))) \<and>
          (\<not> fails be OpCount (fst (gormListQuery lib tc params)) \<and>
           \<not> fails be OpFind (gormOrderSelect params (fst (gormListQuery lib tc params))) \<longrightarrow>
             (\<exists>data total. gormList be lib tc params rows = Inr (data, total))) \<and>
          (\<forall>data total. mongoList mbe lib tc params docs = Inr (data, total) \<longrightarrow>
             data = map (projectDoc (mongoProjection (Fields params)))
                      (pageOf (Page params) (PageSize params)
                         (applySort mbe (if Order params \<noteq> [] then mongoSort (Order params) else [])
                            (filter (docMatches mbe (fst (mongoListQuery lib tc params))) docs)))) \<and>
          ((\<forall>op. \<not> failsM mbe op (fst (mongoListQuery lib tc params))) \<longrightarrow>
             (\<exists>data total. mongoList mbe lib tc params docs = Inr (data, total)))))"
proof -
  have pg: "Page params =
      (case queryFirst q queryParamPage of
         None \<Rightarrow> DefaultPage cfg
       | Some s \<Rightarrow> if atoi s \<le> 0 then DefaultPage cfg else atoi s)"
    by (simp add: params_def handleListParams_def Let_def split: option.splits)
  have ps: "PageSize params =
      min (MaxPageSize cfg)
        (case queryFirst q queryParamPageSize of
           None \<Rightarrow> DefaultPageSize cfg
         | Some s \<Rightarrow> if atoi s \<le> 0 then DefaultPageSize cfg else atoi s)"
    by (simp add: params_def handleListParams_def Let_def min_def split: option.splits)
  have rest: "1 \<le> Page params \<and> 1 \<le> PageSize params \<and> PageSize params \<le> MaxPageSize cfg \<and>
       ((Page params - 1) * PageSize params \<le> maxInt64 \<longrightarrow>
          (\<forall>data total. gormList be lib tc params rows = Inr (data, total) \<longrightarrow>
             data = map (projectRow (selectFields (gormOrderSelect params (fst (gormListQuery lib tc params)))))
                      (pageOf (Page params) (PageSize params)
                         (dbOrdered be (gormOrderSelect params (fst (gormListQuery lib tc params))) rows))) \<and>
          (\<not> fails be OpCount (fst (gormListQuery lib tc params)) \<and>
           \<not> fails be OpFind (gormOrderSelect params (fst (gormListQuery lib tc params))) \<longrightarrow>
             (\<exists>data total. gormList be lib tc params rows = Inr (data, total))) \<and>
          (\<forall>data total. mongoList mbe lib tc params docs = Inr (data, total) \<longrightarrow>
             data = map (projectDoc (mongoProjection (Fields params)))
                      (pageOf (Page params) (PageSize params)
                         (applySort mbe (if Order params \<noteq> [] then mongoSort (Order params) else [])
                            (filter (docMatches mbe (fst (mongoListQuery lib tc params))) docs)))) \<and>
          ((\<forall>op. \<not> failsM mbe op (fst (mongoListQuery lib tc params))) \<longrightarrow>
             (\<exists>data total. mongoList mbe lib tc params docs = Inr (data, total))))"
    if c: "1 \<le> DefaultPage cfg" "1 \<le> DefaultPageSize cfg" "1 \<le> MaxPageSize cfg"
  proof -
    have b: "1 \<le> Page params \<and> 1 \<le> PageSize params \<and> PageSize params \<le> MaxPageSize cfg"
      using handleListParams_bounds [OF c] by (simp add: params_def)
    have nonneg: "0 \<le> (Page params - 1) * PageSize params"
      using b by simp
    have nn: "\<not> (Page params - 1) * PageSize params < 0"
      using nonneg by linarith
    have pos: "\<not> PageSize params < 0" "PageSize params \<noteq> 0" "\<bar>PageSize params\<bar> = PageSize params"
      using b by simp_all
    have paged: "(if 0 < off then drop (nat off) xs else xs) = drop (nat off) xs" for off :: int and xs :: "'z list"
      by simp
    have g1: "\<forall>data total. gormList be lib tc params rows = Inr (data, total) \<longrightarrow>
             data = map (projectRow (selectFields (gormOrderSelect params (fst (gormListQuery lib tc params)))))
                      (pageOf (Page params) (PageSize params)
                         (dbOrdered be (gormOrderSelect params (fst (gormListQuery lib tc params))) rows))"
      if o: "(Page params - 1) * PageSize params \<le> maxInt64"
      using pos wrap64_id [OF nonneg o]
      by (cases "gormListQuery lib tc params")
        (auto simp: gormList_def dbFind_def pageOf_def Let_def paged split: if_splits)
    have g2: "\<exists>data total. gormList be lib tc params rows = Inr (data, total)"
      if "\<not> fails be OpCount (fst (gormListQuery lib tc params))"
        "\<not> fails be OpFind (gormOrderSelect params (fst (gormListQuery lib tc params)))"
      using that
      by (cases "gormListQuery lib tc params") (simp add: gormList_def Let_def)
    have m1: "\<forall>data total. mongoList mbe lib tc params docs = Inr (data, total) \<longrightarrow>
             data = map (projectDoc (mongoProjection (Fields params)))
                      (pageOf (Page params) (PageSize params)
                         (applySort mbe (if Order params \<noteq> [] then mongoSort (Order params) else [])
                            (filter (docMatches mbe (fst (mongoListQuery lib tc params))) docs)))"
      if o: "(Page params - 1) * PageSize params \<le> maxInt64"
      using pos nn wrap64_id [OF nonneg o]
      by (cases "mongoListQuery lib tc params")
        (auto simp: mongoList_def collFind_def pageOf_def Let_def split: if_splits sum.splits
          simp del: mult_less_0_iff)
    have m2: "\<exists>data total. mongoList mbe lib tc params docs = Inr (data, total)"
      if o: "(Page params - 1) * PageSize params \<le> maxInt64"
        and "\<forall>op. \<not> failsM mbe op (fst (mongoListQuery lib tc params))"
      using that(2) nn wrap64_id [OF nonneg o]
      by (cases "mongoListQuery lib tc params")
        (simp add: mongoList_def collFind_def Let_def del: mult_less_0_iff)
    show ?thesis using b g1 g2 m1 m2 by blast
  qed
  show ?thesis using pg ps rest by blast
qed

lemmas eval_params = handleListParams_def queryFirst_def query_def queryParamPage_def
  queryParamPageSize_def queryParamFields_def queryParamOrder_def atoi_def parseSigned_def
  digitVal_def minInt64_def maxInt64_def

lemmas eval_gorm = queryParamPage_def queryParamPageSize_def queryParamFields_def
  queryParamOrder_def gormListQuery_def gormOrderSelect_def applyGormSoftDeleteFilter_def
  dbOrdered_def dbMatches_def dbWhere_def newDB_def projectRow_def isReservedParam_def
  softDeleteTypeTimestamp_def softDeleteTypeBoolean_def softDeleteTypeInt_def
  col_def sqlEq_def zeroTime_def

lemmas eval_mongo = queryParamPage_def queryParamPageSize_def queryParamFields_def
  queryParamOrder_def mongoListQuery_def applyMongoSoftDeleteFilter_def docMatches_def
  mongoProjection_def projectDoc_def isReservedParam_def
  softDeleteTypeTimestamp_def softDeleteTypeBoolean_def softDeleteTypeInt_def

theorem list_pagination_witness:
  "handleListParams defaultConfig pageTwo =
     \<lparr>Page = 2, PageSize = 2, Fields = [], Order = [], QueryFilters = pageTwo\<rparr> \<and>
   (\<exists>total. gormList sampleSql sampleLib userTable (handleListParams defaultConfig pageTwo)
       userRows = Inr ([userRow 4 ''d@x'' VNil, userRow 5 ''e@x'' VNil], total)) \<and>
   (\<exists>total. mongoList sampleMongo sampleLib userTable (handleListParams defaultConfig pageTwo)
       userRows = Inr ([userRow 4 ''d@x'' VNil, userRow 5 ''e@x'' VNil], total))"
proof -
  let ?p = "\<lparr>Page = 2, PageSize = 2, Fields = [], Order = [], QueryFilters = pageTwo\<rparr>"
  have p: "handleListParams defaultConfig pageTwo = ?p"
    by (simp add: eval_params defaultConfig_def pageTwo_def)
  have c: "1 \<le> DefaultPage defaultConfig \<and> 1 \<le> DefaultPageSize defaultConfig \<and>
    1 \<le> MaxPageSize defaultConfig"
    by (simp add: defaultConfig_def)
  have o: "(Page ?p - 1) * PageSize ?p \<le> maxInt64"
    by (simp add: maxInt64_def)
  have g: "map (projectRow (selectFields (gormOrderSelect ?p (fst (gormListQuery sampleLib userTable ?p)))))
             (pageOf (Page ?p) (PageSize ?p)
                 (dbOrdered sampleSql (gormOrderSelect ?p (fst (gormListQuery sampleLib userTable ?p))) userRows)) =
      [userRow 4 ''d@x'' VNil, userRow 5 ''e@x'' VNil]"
    by (simp add: pageOf_def eval_gorm pageTwo_def userTable_def userRows_def userRow_def)
  have m: "map (projectDoc (mongoProjection (Fields ?p)))
             (pageOf (Page ?p) (PageSize ?p)
                 (applySort sampleMongo (if Order ?p \<noteq> [] then mongoSort (Order ?p) else [])
                   (filter (docMatches sampleMongo (fst (mongoListQuery sampleLib userTable ?p))) userRows))) =
      [userRow 4 ''d@x'' VNil, userRow 5 ''e@x'' VNil]"
    by (simp add: pageOf_def eval_mongo pageTwo_def userTable_def userRows_def userRow_def)
  have nf: "\<not> fails sampleSql op db" "\<not> failsM sampleMongo mop flt" for op db mop flt
    by (simp_all add: sampleSql_def sampleMongo_def)
  note T = list_pagination [of defaultConfig pageTwo sampleSql sampleLib userTable userRows
      sampleMongo userRows, THEN conjunct2, THEN conjunct2, rule_format, OF c,
      THEN conjunct2, THEN conjunct2, THEN conjunct2, rule_format, unfolded p, OF o]
  from T nf obtain gd gt md mt where
    gl: "gormList sampleSql sampleLib userTable ?p userRows = Inr (gd, gt)" and
    ml: "mongoList sampleMongo sampleLib userTable ?p userRows = Inr (md, mt)"
    by blast
  have "gd = [userRow 4 ''d@x'' VNil, userRow 5 ''e@x'' VNil]"
    using T gl g by simp
  moreover have "md = [userRow 4 ''d@x'' VNil, userRow 5 ''e@x'' VNil]"
    using T ml m by simp
  ultimately show ?thesis using gl ml p by simp
qed

subsection \<open>The total of a list response\<close>

lemma gormListLoop_flag:
  "\<forall>(k, vs)\<in>set q. vs \<noteq> [] \<Longrightarrow>
   snd (gormListLoop lib q (db, h)) = (h \<or> isFilteredRequest q)"
proof (induction q arbitrary: db h)
  case Nil
  then show ?case by (simp add: isFilteredRequest_def)
next
  case (Cons a q)
  obtain key vals where a: "a = (key, vals)" by (cases a)
  from Cons.prems a obtain v vs where vals: "vals = v # vs" by (cases vals) auto
  have rest: "\<forall>(k, vs)\<in>set q. vs \<noteq> []" using Cons.prems by simp
  show ?case
    using Cons.IH [OF rest] a vals by (auto simp: isFilteredRequest_def)
qed

lemma mongoListLoop_flag:
  "\<forall>(k, vs)\<in>set q. vs \<noteq> [] \<Longrightarrow>
   snd (mongoListLoop lib q (flt, h)) = (h \<or> isFilteredRequest q)"
proof (induction q arbitrary: flt h)
  case Nil
  then show ?case by (simp add: isFilteredRequest_def)
next
  case (Cons a q)
  obtain key vals where a: "a = (key, vals)" by (cases a)
  from Cons.prems a obtain v vs where vals: "vals = v # vs" by (cases vals) auto
  have rest: "\<forall>(k, vs)\<in>set q. vs \<noteq> []" using Cons.prems by simp
  show ?case
    using Cons.IH [OF rest] a vals by (auto simp: isFilteredRequest_def)
qed

lemma QueryFilters_handleListParams: "QueryFilters (handleListParams cfg q) = q"
  by (simp add: handleListParams_def Let_def)

lemma gormListLoop_conds:
  "fst (gormListLoop lib q (db, h)) = db\<lparr>conds := conds db @ gormFilterConds lib q\<rparr>"
proof (induction q arbitrary: db h)
  case Nil
  then show ?case by (simp add: gormFilterConds_def)
next
  case (Cons a q)
  obtain key vals where a: "a = (key, vals)" by (cases a)
  show ?case
    using Cons.IH a
    by (cases vals; cases "gormFilterCond lib key (hd vals)")
      (simp_all add: gormFilterConds_def dbWhere_def)
qed

lemma soft_conds_live:
  "list_all (gcondHolds be row) (conds (applyGormSoftDeleteFilter newDB tc)) = sqlLive tc row"
  by (simp add: applyGormSoftDeleteFilter_def newDB_def dbWhere_def sqlLive_def
      softDeleteTypeTimestamp_def softDeleteTypeBoolean_def softDeleteTypeInt_def)

lemma gormListQuery_matches:
  "dbMatches be (fst (gormListQuery lib tc params)) row =
     (sqlLive tc row \<and> list_all (gcondHolds be row) (gormFilterConds lib (QueryFilters params)))"
  by (simp add: gormListQuery_def gormListLoop_conds dbMatches_def soft_conds_live)

lemma mongoListLoop_entries:
  "fst (mongoListLoop lib q (flt, h)) =
     fold (\<lambda>(k, c) m. AList.update k c m) (mongoFilterEntries lib q) flt"
proof (induction q arbitrary: flt h)
  case Nil
  then show ?case by (simp add: mongoFilterEntries_def)
next
  case (Cons a q)
  obtain key vals where a: "a = (key, vals)" by (cases a)
  show ?case
    using Cons.IH a
    by (cases vals; cases "mongoFilterEntry lib key (hd vals)")
      (auto simp: mongoFilterEntries_def)
qed

lemma update_absent: "k \<notin> fst ` set al \<Longrightarrow> AList.update k v al = al @ [(k, v)]"
  by (induction al) auto

lemma fold_update_fresh:
  "distinct (map fst es) \<Longrightarrow> fst ` set es \<inter> fst ` set flt = {} \<Longrightarrow>
   fold (\<lambda>(k, c) m. AList.update k c m) es flt = flt @ es"
proof (induction es arbitrary: flt)
  case Nil
  then show ?case by simp
next
  case (Cons e es)
  obtain k c where e: "e = (k, c)" by (cases e)
  have fresh: "k \<notin> fst ` set flt" using Cons.prems(2) e by auto
  have d: "distinct (map fst es)" using Cons.prems(1) by simp
  have "fst ` set es \<inter> fst ` set (flt @ [(k, c)]) = {}"
    using Cons.prems e by auto
  from Cons.IH [OF d this] show ?case
    using e fresh by (simp add: update_absent)
qed

lemma soft_filter_live:
  "docMatches be (applyMongoSoftDeleteFilter [] tc) doc = docLive tc doc"
  by (auto simp: applyMongoSoftDeleteFilter_def docMatches_def docLive_def
      softDeleteTypeTimestamp_def softDeleteTypeBoolean_def softDeleteTypeInt_def)

lemma soft_filter_keys:
  "fst ` set (applyMongoSoftDeleteFilter [] tc) \<subseteq> {SoftDeleteKey tc, ''$or''}"
  by (auto simp: applyMongoSoftDeleteFilter_def)

lemma mongoListQuery_matches:
  assumes "distinct (map fst (mongoFilterEntries lib (QueryFilters params)))"
    and "SoftDeleteKey tc \<notin> fst ` set (mongoFilterEntries lib (QueryFilters params))"
    and "''$or'' \<notin> fst ` set (mongoFilterEntries lib (QueryFilters params))"
  shows "docMatches be (fst (mongoListQuery lib tc params)) doc =
     (docLive tc doc \<and>
      list_all (mcondHolds be doc) (mongoFilterEntries lib (QueryFilters params)))"
proof -
  let ?es = "mongoFilterEntries lib (QueryFilters params)"
  have disj: "A \<subseteq> {a, b} \<Longrightarrow> a \<notin> B \<Longrightarrow> b \<notin> B \<Longrightarrow> B \<inter> A = {}"
    for A B :: "string set" and a b
    by blast
  have "fst ` set ?es \<inter> fst ` set (applyMongoSoftDeleteFilter [] tc) = {}"
    by (rule disj [OF soft_filter_keys assms(2,3)])
  then have "fst (mongoListQuery lib tc params) = applyMongoSoftDeleteFilter [] tc @ ?es"
    using fold_update_fresh [OF assms(1), of "applyMongoSoftDeleteFilter [] tc"]
    by (simp only: mongoListQuery_def mongoListLoop_entries)
  then have "docMatches be (fst (mongoListQuery lib tc params)) doc =
      (docMatches be (applyMongoSoftDeleteFilter [] tc) doc \<and> list_all (mcondHolds be doc) ?es)"
    by (simp only: docMatches_def list_all_append)
  then show ?thesis
    by (simp only: soft_filter_live)
qed

text \<open>
  C5, as stated, has the total of an unfiltered list equal to the cached count. When the
  cache holds no count for the table (the refresher is switched off with interval 0, has
  not run yet, or its count failed), the handler keeps the adapter's total, which is 0 for
  an unfiltered list, here for a table with four visible rows.
\<close>

theorem list_total_cache_miss_counterexample:
  "handleList (\<lambda>p. gormList sampleSql sampleLib userTable p userRows) defaultConfig Map.empty
       ''test'' ''user'' [] = (200, Some 0) \<and>
   (Map.empty :: string \<rightharpoonup> int) (countKey ''test'' ''user'') = None \<and>
   gormCountAll sampleSql userTable userRows = Inr 4"
  by (simp add: handleList_def isFilteredRequest_def gormList_def gormCountAll_def dbCount_def
      Let_def handleListParams_def queryFirst_def query_def defaultConfig_def sampleSql_def
      eval_gorm userTable_def userRows_def userRow_def)

text \<open>
  C5, amended, for a query string as \<open>url.ParseQuery\<close> yields it (every key has a value).
  When the adapter returns an error the answer is 500 and carries no total. Otherwise,
  for a request with no parameter other than \<open>page\<close>, \<open>page_size\<close>, \<open>order\<close> and \<open>fields\<close> the
  total is the cached count of the table when the cache holds one, and the adapter's total
  when it holds none, which is 0 on both adapters; for a request with any other parameter
  the total is the adapter's total: on the relational adapter the number of rows that
  satisfy the soft-delete predicate and every filter condition, and the same on the
  document adapter when the filters name distinct fields, none of them the soft-delete
  field or \<open>$or\<close>. The refresher stores under the table's key the count the adapter returns
  (on the relational adapter the number of rows that satisfy the soft-delete predicate) and
  keeps the old entry when the count fails.
\<close>

theorem list_total:
  assumes "\<forall>(k, vs)\<in>set q. vs \<noteq> []"
  shows
    "(\<forall>e. adapterList (handleListParams cfg q) = Inl e \<longrightarrow>
        handleList adapterList cfg tableCounts dbName tableAlias q = (500, None)) \<and>
     (\<forall>data t. adapterList (handleListParams cfg q) = Inr (data, t) \<longrightarrow>
        handleList adapterList cfg tableCounts dbName tableAlias q =
          (200, Some (if isFilteredRequest q then t
                      else (case tableCounts (countKey dbName tableAlias) of
                              Some cachedCount \<Rightarrow> cachedCount
                            | None \<Rightarrow> t)))) \<and>
     (\<forall>data t. gormList be lib tc (handleListParams cfg q) rows = Inr (data, t) \<longrightarrow>
        t = (if isFilteredRequest q
             then int (length (filter (\<lambda>row. sqlLive tc row \<and>
                          list_all (gcondHolds be row) (gormFilterConds lib q)) rows))
             else 0)) \<and>
     (\<forall>data t. mongoList mbe lib tc (handleListParams cfg q) docs = Inr (data, t) \<longrightarrow>
        (\<not> isFilteredRequest q \<longrightarrow> t = 0) \<and>
        (isFilteredRequest q \<and> distinct (map fst (mongoFilterEntries lib q)) \<and>
         SoftDeleteKey tc \<notin> fst ` set (mongoFilterEntries lib q) \<and>
         ''$or'' \<notin> fst ` set (mongoFilterEntries lib q) \<longrightarrow>
           t = int (length (filter (\<lambda>doc. docLive tc doc \<and>
                      list_all (mcondHolds mbe doc) (mongoFilterEntries lib q)) docs)))) \<and>
     updateTableCounts countAll dbName [tc] tableCounts (countKey dbName (Alias tc)) =
       (case countAll tc of
          Inl e \<Rightarrow> tableCounts (countKey dbName (Alias tc))
        | Inr n \<Rightarrow> Some n) \<and>
     (\<forall>n. gormCountAll be tc rows = Inr n \<longrightarrow> n = int (length (filter (sqlLive tc) rows)))"
proof -
  let ?p = "handleListParams cfg q"
  have qf: "QueryFilters ?p = q" by (rule QueryFilters_handleListParams)
  have gf: "snd (gormListQuery lib tc ?p) = isFilteredRequest q"
    using gormListLoop_flag [OF assms, of lib "applyGormSoftDeleteFilter newDB tc" False]
    by (simp add: gormListQuery_def qf)
  have mf: "snd (mongoListQuery lib tc ?p) = isFilteredRequest q"
    using mongoListLoop_flag [OF assms, of lib "applyMongoSoftDeleteFilter [] tc" False]
    by (simp add: mongoListQuery_def qf)
  have h1: "\<forall>e. adapterList ?p = Inl e \<longrightarrow>
        handleList adapterList cfg tableCounts dbName tableAlias q = (500, None)"
    by (simp add: handleList_def Let_def)
  have h2: "\<forall>data t. adapterList ?p = Inr (data, t) \<longrightarrow>
        handleList adapterList cfg tableCounts dbName tableAlias q =
          (200, Some (if isFilteredRequest q then t
                      else (case tableCounts (countKey dbName tableAlias) of
                              Some cachedCount \<Rightarrow> cachedCount
                            | None \<Rightarrow> t)))"
    by (simp add: handleList_def Let_def)
  have gcount: "dbCount be (fst (gormListQuery lib tc ?p)) rows =
      int (length (filter (\<lambda>row. sqlLive tc row \<and>
                          list_all (gcondHolds be row) (gormFilterConds lib q)) rows))"
  proof -
    have "dbMatches be (fst (gormListQuery lib tc ?p)) =
        (\<lambda>row. sqlLive tc row \<and> list_all (gcondHolds be row) (gormFilterConds lib q))"
      by (rule ext) (simp add: gormListQuery_matches qf)
    then show ?thesis by (simp add: dbCount_def)
  qed
  have g: "\<forall>data t. gormList be lib tc ?p rows = Inr (data, t) \<longrightarrow>
        t = (if isFilteredRequest q
             then int (length (filter (\<lambda>row. sqlLive tc row \<and>
                          list_all (gcondHolds be row) (gormFilterConds lib q)) rows))
             else 0)"
    using gf gcount
    by (cases "gormListQuery lib tc ?p") (auto simp: gormList_def Let_def split: if_splits)
  have mcount: "collCount mbe (fst (mongoListQuery lib tc ?p)) docs =
      int (length (filter (\<lambda>doc. docLive tc doc \<and>
                      list_all (mcondHolds mbe doc) (mongoFilterEntries lib q)) docs))"
    if "distinct (map fst (mongoFilterEntries lib q))"
      "SoftDeleteKey tc \<notin> fst ` set (mongoFilterEntries lib q)"
      "''$or'' \<notin> fst ` set (mongoFilterEntries lib q)"
  proof -
    have "docMatches mbe (fst (mongoListQuery lib tc ?p)) =
        (\<lambda>doc. docLive tc doc \<and> list_all (mcondHolds mbe doc) (mongoFilterEntries lib q))"
      using that by (intro ext) (simp add: mongoListQuery_matches qf)
    then show ?thesis by (simp add: collCount_def)
  qed
  have m: "\<forall>data t. mongoList mbe lib tc ?p docs = Inr (data, t) \<longrightarrow>
        (\<not> isFilteredRequest q \<longrightarrow> t = 0) \<and>
        (isFilteredRequest q \<and> distinct (map fst (mongoFilterEntries lib q)) \<and>
         SoftDeleteKey tc \<notin> fst ` set (mongoFilterEntries lib q) \<and>
         ''$or'' \<notin> fst ` set (mongoFilterEntries lib q) \<longrightarrow>
           t = int (length (filter (\<lambda>doc. docLive tc doc \<and>
                      list_all (mcondHolds mbe doc) (mongoFilterEntries lib q)) docs)))"
  proof (intro allI impI)
    fix data t
    assume r: "mongoList mbe lib tc ?p docs = Inr (data, t)"
    obtain flt fl where mq: "mongoListQuery lib tc ?p = (flt, fl)"
      by (cases "mongoListQuery lib tc ?p")
    have fl: "fl = isFilteredRequest q" using mf mq by simp
    have t: "t = (if fl then collCount mbe flt docs else 0)"
      using r mq by (auto simp: mongoList_def Let_def split: if_splits sum.splits)
    show "(\<not> isFilteredRequest q \<longrightarrow> t = 0) \<and>
        (isFilteredRequest q \<and> distinct (map fst (mongoFilterEntries lib q)) \<and>
         SoftDeleteKey tc \<notin> fst ` set (mongoFilterEntries lib q) \<and>
         ''$or'' \<notin> fst ` set (mongoFilterEntries lib q) \<longrightarrow>
           t = int (length (filter (\<lambda>doc. docLive tc doc \<and>
                      list_all (mcondHolds mbe doc) (mongoFilterEntries lib q)) docs)))"
      using t fl mcount mq by auto
  qed
  have r: "updateTableCounts countAll dbName [tc] tableCounts (countKey dbName (Alias tc)) =
       (case countAll tc of
          Inl e \<Rightarrow> tableCounts (countKey dbName (Alias tc))
        | Inr n \<Rightarrow> Some n)"
    by (simp split: sum.splits)
  have c: "\<forall>n. gormCountAll be tc rows = Inr n \<longrightarrow> n = int (length (filter (sqlLive tc) rows))"
  proof -
    have "dbMatches be (applyGormSoftDeleteFilter newDB tc) = sqlLive tc"
      by (rule ext) (simp add: dbMatches_def soft_conds_live)
    then show ?thesis
      by (auto simp: gormCountAll_def dbCount_def split: if_splits)
  qed
  show ?thesis using h1 h2 g m r c by blast
qed

theorem list_total_witness:
  "handleList (\<lambda>p. gormList sampleSql sampleLib userTable p userRows) defaultConfig
       [countKey ''test'' ''user'' \<mapsto> 4] ''test'' ''user'' pageTwo = (200, Some 4) \<and>
   handleList (\<lambda>p. gormList sampleSql sampleLib userTable p userRows) defaultConfig
       [countKey ''test'' ''user'' \<mapsto> 4] ''test'' ''user'' emailFilter = (200, Some 1) \<and>
   handleList (\<lambda>p. gormList sampleSql sampleLib userTable p userRows) defaultConfig
       [countKey ''test'' ''user'' \<mapsto> 4] ''test'' ''user'' deletedEmailFilter = (200, Some 0) \<and>
   handleList (\<lambda>p. mongoList sampleMongo sampleLib userTable p userRows) defaultConfig
       [countKey ''test'' ''user'' \<mapsto> 4] ''test'' ''user'' deletedEmailFilter = (200, Some 0) \<and>
   handleList (\<lambda>p. gormList failingSql sampleLib userTable p userRows) defaultConfig
       [countKey ''test'' ''user'' \<mapsto> 4] ''test'' ''user'' pageTwo = (500, None) \<and>
   updateTableCounts (\<lambda>tc. gormCountAll sampleSql tc userRows) ''test'' [userTable] Map.empty
       (countKey ''test'' ''user'') = Some 4"
proof -
  let ?cache = "[countKey ''test'' ''user'' \<mapsto> (4::int)]"
  let ?g = "\<lambda>p. gormList sampleSql sampleLib userTable p userRows"
  let ?m = "\<lambda>p. mongoList sampleMongo sampleLib userTable p userRows"
  let ?f = "\<lambda>p. gormList failingSql sampleLib userTable p userRows"
  have w1: "\<forall>(k, vs)\<in>set pageTwo. vs \<noteq> []" by (simp add: pageTwo_def)
  have w2: "\<forall>(k, vs)\<in>set emailFilter. vs \<noteq> []" by (simp add: emailFilter_def)
  have w3: "\<forall>(k, vs)\<in>set deletedEmailFilter. vs \<noteq> []"
    by (simp add: deletedEmailFilter_def)
  have f1: "\<not> isFilteredRequest pageTwo"
    by (simp add: isFilteredRequest_def pageTwo_def isReservedParam_def queryParamPage_def
        queryParamPageSize_def)
  have f2: "isFilteredRequest emailFilter" "isFilteredRequest deletedEmailFilter"
    by (simp_all add: isFilteredRequest_def emailFilter_def deletedEmailFilter_def
        isReservedParam_def queryParamPage_def queryParamPageSize_def queryParamFields_def
        queryParamOrder_def)
  have pv: "parseFilterValue sampleLib ''b@x'' = VStr ''b@x''"
    "parseFilterValue sampleLib ''c@x'' = VStr ''c@x''"
    by (simp_all add: parseFilterValue_def parseInt64_def parseSigned_def digitVal_def
        sampleLib_def parseBool_def)
  have gc: "gormFilterConds sampleLib emailFilter = [CEq ''email'' (VStr ''b@x'')]"
    "gormFilterConds sampleLib deletedEmailFilter = [CEq ''email'' (VStr ''c@x'')]"
    by (simp_all add: gormFilterConds_def emailFilter_def deletedEmailFilter_def
        isReservedParam_def queryParamPage_def queryParamPageSize_def queryParamFields_def
        queryParamOrder_def gormFilterCond_def splitKey_def pv)
  have me: "mongoFilterEntries sampleLib deletedEmailFilter = [(''email'', MVal (VStr ''c@x''))]"
    by (simp add: mongoFilterEntries_def deletedEmailFilter_def
        isReservedParam_def queryParamPage_def queryParamPageSize_def queryParamFields_def
        queryParamOrder_def mongoFilterEntry_def splitKey_def pv)
  have n1: "int (length (filter (\<lambda>row. sqlLive userTable row \<and>
        list_all (gcondHolds sampleSql row) [CEq ''email'' (VStr ''b@x'')]) userRows)) = 1"
    by (simp add: sqlLive_def userTable_def userRows_def userRow_def col_def sqlEq_def
        zeroTime_def parseInt64_def parseSigned_def digitVal_def)
  have n2: "int (length (filter (\<lambda>row. sqlLive userTable row \<and>
        list_all (gcondHolds sampleSql row) [CEq ''email'' (VStr ''c@x'')]) userRows)) = 0"
    by (simp add: sqlLive_def userTable_def userRows_def userRow_def col_def sqlEq_def
        zeroTime_def parseInt64_def parseSigned_def digitVal_def)
  have n3: "int (length (filter (\<lambda>doc. docLive userTable doc \<and>
        list_all (mcondHolds sampleMongo doc) [(''email'', MVal (VStr ''c@x''))]) userRows)) = 0"
    by (simp add: docLive_def userTable_def userRows_def userRow_def)
  have sk: "SoftDeleteKey userTable = ''deleted_at''" by (simp add: userTable_def)
  have gr: "\<exists>data t. gormList sampleSql sampleLib userTable p userRows = Inr (data, t)" for p
    by (cases "gormListQuery sampleLib userTable p") (simp add: gormList_def sampleSql_def Let_def)
  have mr: "\<exists>data t. mongoList sampleMongo sampleLib userTable
      (handleListParams defaultConfig deletedEmailFilter) userRows = Inr (data, t)"
    by (cases "mongoListQuery sampleLib userTable (handleListParams defaultConfig deletedEmailFilter)")
      (simp add: mongoList_def collFind_def sampleMongo_def wrap64_def Let_def eval_params
        defaultConfig_def deletedEmailFilter_def)
  have fr: "gormList failingSql sampleLib userTable (handleListParams defaultConfig pageTwo)
      userRows = Inl ErrBackend"
    by (cases "gormListQuery sampleLib userTable (handleListParams defaultConfig pageTwo)")
      (simp add: gormList_def failingSql_def sampleSql_def Let_def)
  have ca: "gormCountAll sampleSql userTable userRows = Inr 4"
    by (simp add: gormCountAll_def dbCount_def eval_gorm sampleSql_def userTable_def userRows_def
        userRow_def)
  note T1 = list_total [OF w1, where cfg = defaultConfig and tableCounts = ?cache
      and dbName = "''test''" and tableAlias = "''user''" and be = sampleSql and lib = sampleLib
      and tc = userTable and rows = userRows]
  note T2 = list_total [OF w2, where cfg = defaultConfig and tableCounts = ?cache
      and dbName = "''test''" and tableAlias = "''user''" and be = sampleSql and lib = sampleLib
      and tc = userTable and rows = userRows]
  note T3 = list_total [OF w3, where cfg = defaultConfig and tableCounts = ?cache
      and dbName = "''test''" and tableAlias = "''user''" and be = sampleSql and lib = sampleLib
      and tc = userTable and rows = userRows and mbe = sampleMongo and docs = userRows]
  note T4 = list_total [OF w1, where tc = userTable and dbName = "''test''"
      and countAll = "\<lambda>tc. gormCountAll sampleSql tc userRows" and tableCounts = Map.empty]
  have a: "handleList ?g defaultConfig ?cache ''test'' ''user'' pageTwo = (200, Some 4)"
  proof -
    obtain data t where r: "?g (handleListParams defaultConfig pageTwo) = Inr (data, t)"
      using gr by blast
    show ?thesis
      using T1 [where adapterList = ?g, THEN conjunct2, THEN conjunct1, rule_format, OF r] f1
      by simp
  qed
  have b: "handleList ?g defaultConfig ?cache ''test'' ''user'' emailFilter = (200, Some 1)"
  proof -
    obtain data t where r: "?g (handleListParams defaultConfig emailFilter) = Inr (data, t)"
      using gr by blast
    have "t = 1"
      using T2 [THEN conjunct2, THEN conjunct2, THEN conjunct1, rule_format, OF r]
      by (simp only: f2 if_True gc n1)
    then show ?thesis
      using T2 [where adapterList = ?g, THEN conjunct2, THEN conjunct1, rule_format, OF r] f2
      by simp
  qed
  have c: "handleList ?g defaultConfig ?cache ''test'' ''user'' deletedEmailFilter = (200, Some 0)"
  proof -
    obtain data t where r: "?g (handleListParams defaultConfig deletedEmailFilter) = Inr (data, t)"
      using gr by blast
    have "t = 0"
      using T3 [THEN conjunct2, THEN conjunct2, THEN conjunct1, rule_format, OF r]
      by (simp only: f2 if_True gc n2)
    then show ?thesis
      using T3 [where adapterList = ?g, THEN conjunct2, THEN conjunct1, rule_format, OF r] f2
      by simp
  qed
  have d: "handleList ?m defaultConfig ?cache ''test'' ''user'' deletedEmailFilter = (200, Some 0)"
  proof -
    obtain data t where r: "?m (handleListParams defaultConfig deletedEmailFilter) = Inr (data, t)"
      using mr by blast
    have "t = 0"
    proof -
      have h: "isFilteredRequest deletedEmailFilter \<and>
          distinct (map fst (mongoFilterEntries sampleLib deletedEmailFilter)) \<and>
          SoftDeleteKey userTable \<notin> fst ` set (mongoFilterEntries sampleLib deletedEmailFilter) \<and>
          ''$or'' \<notin> fst ` set (mongoFilterEntries sampleLib deletedEmailFilter)"
        using f2 by (simp add: me sk)
      show ?thesis
        using T3 [THEN conjunct2, THEN conjunct2, THEN conjunct2, THEN conjunct1, rule_format,
          OF r, THEN conjunct2, rule_format, OF h]
        by (simp only: me n3)
    qed
    then show ?thesis
      using T3 [where adapterList = ?m, THEN conjunct2, THEN conjunct1, rule_format, OF r] f2
      by simp
  qed
  have e: "handleList ?f defaultConfig ?cache ''test'' ''user'' pageTwo = (500, None)"
    using T1 [where adapterList = ?f, THEN conjunct1, rule_format, OF fr] by simp
  have f: "updateTableCounts (\<lambda>tc. gormCountAll sampleSql tc userRows) ''test'' [userTable]
      Map.empty (countKey ''test'' ''user'') = Some 4"
    using T4 [THEN conjunct2, THEN conjunct2, THEN conjunct2, THEN conjunct2, THEN conjunct1] ca
    by (simp add: userTable_def)
  show ?thesis using a b c d e f by simp
qed

subsection \<open>Applying the default values twice\<close>

lemma applyDefault_other:
  "k \<noteq> field \<Longrightarrow> map_of (applyDefault env (field, dv) r) k = map_of r k"
  by (simp add: applyDefault_def update_conv')

lemma applyDefault_self:
  "map_of (applyDefault env (field, dv) r) field =
     (if needsDefault (map_of r field) then Some (defaultFor env dv) else map_of r field)"
  by (simp add: applyDefault_def update_conv')

lemma fold_applyDefault_other:
  "field \<notin> fst ` set ds \<Longrightarrow> map_of (fold (applyDefault env) ds r) field = map_of r field"
proof (induction ds arbitrary: r)
  case Nil
  then show ?case by simp
next
  case (Cons a ds)
  obtain k d where a: "a = (k, d)" by (cases a)
  with Cons.prems have "k \<noteq> field" and "field \<notin> fst ` set ds" by auto
  then show ?case using Cons.IH [of "applyDefault env a r"] a
    by (simp add: applyDefault_other)
qed

lemma fold_applyDefault_entry:
  "distinct (map fst ds) \<Longrightarrow> (field, dv) \<in> set ds \<Longrightarrow>
   map_of (fold (applyDefault env) ds r) field =
     (if needsDefault (map_of r field) then Some (defaultFor env dv) else map_of r field)"
proof (induction ds arbitrary: r)
  case Nil
  then show ?case by simp
next
  case (Cons a ds)
  obtain k d where a: "a = (k, d)" by (cases a)
  show ?case
  proof (cases "a = (field, dv)")
    case True
    then have "field \<notin> fst ` set ds" using Cons.prems(1) by auto
    then have "map_of (fold (applyDefault env) ds (applyDefault env a r)) field =
        map_of (applyDefault env a r) field"
      by (rule fold_applyDefault_other)
    then show ?thesis using True by (simp add: applyDefault_self)
  next
    case False
    then have mem: "(field, dv) \<in> set ds" using Cons.prems(2) by simp
    have d: "distinct (map fst ds)" using Cons.prems(1) by simp
    have "k \<noteq> field" using mem Cons.prems(1) a by (auto simp: image_iff)
    then have "map_of (applyDefault env a r) field = map_of r field"
      using a by (simp add: applyDefault_other)
    then show ?thesis using Cons.IH [OF d mem, of "applyDefault env a r"] by simp
  qed
qed

lemma defaultFor_empty_literal:
  assumes "generatorsSucceed env" and "needsDefault (Some (defaultFor env dv))"
  shows "(dv = VNil \<or> dv = VStr []) \<and> defaultFor env' dv = dv"
  using assms
  by (cases dv)
    (auto simp: defaultFor_def needsDefault_def generatorsSucceed_def idOrEmpty_def
      defaultValueNow_def defaultValueSnowflake_def defaultValueULID_def
      defaultValueUUIDv4_def defaultValueUUIDv7_def split: if_splits option.splits)

lemma applyDefault_noop:
  "map_of r field = Some v \<Longrightarrow> (needsDefault (Some v) \<Longrightarrow> defaultFor env dv = v) \<Longrightarrow>
   applyDefault env (field, dv) r = r"
  by (simp add: applyDefault_def AList.update_triv)

lemma fold_noop: "(\<And>e. e \<in> set ds \<Longrightarrow> f e r = r) \<Longrightarrow> fold f ds r = r"
  by (induction ds) simp_all

text \<open>
  C7, as stated, has every field the first application fills non-empty afterwards. A
  configured default may itself be the empty string (the introspection writes \<open>""\<close> for
  a soft-delete column of a string type): the field is then filled with the empty string
  and still counts as missing.
\<close>

theorem default_values_empty_literal_counterexample:
  "map_of (applyDefaultValues sampleEnv [] userTable) ''nickname'' = Some (VStr []) \<and>
   needsDefault (map_of (applyDefaultValues sampleEnv [] userTable) ''nickname'')"
  by (simp add: applyDefaultValues_def applyDefault_def needsDefault_def userTable_def
      defaultFor_def defaultValueNow_def defaultValueSnowflake_def defaultValueULID_def
      defaultValueUUIDv4_def defaultValueUUIDv7_def)

text \<open>
  When a generator returns an error the field is filled with the empty string, and a
  later application in which the generator works fills it again: the reason for the
  proviso on the generators below.
\<close>

lemma default_values_generator_error_example:
  "applyDefaultValues brokenEnv [] ulidTable = [(''id'', VStr [])] \<and>
   applyDefaultValues laterEnv (applyDefaultValues brokenEnv [] ulidTable) ulidTable =
     [(''id'', VStr ''01ARZ3NDEKTSV4RRFFQ69G5FAW'')]"
  by (simp add: applyDefaultValues_def applyDefault_def needsDefault_def ulidTable_def
      userTable_def defaultFor_def defaultValueNow_def defaultValueSnowflake_def
      defaultValueULID_def defaultValueUUIDv4_def defaultValueUUIDv7_def brokenEnv_def
      sampleEnv_def laterEnv_def idOrEmpty_def)

text \<open>
  C7, amended: for every table configuration (\<open>default_values\<close> is a map: its fields are
  distinct) and every input record, when the id generators succeed in the first
  application, a second application at any later moment changes nothing: applying the
  rules twice yields the same map as applying them once. Every field the first
  application fills holds the configured literal or the evaluated template afterwards, and
  it is present, non-nil and non-empty unless the configured default is itself nil or the
  empty string.
\<close>

theorem default_values_idempotent:
  assumes "case DefaultValues tc of None \<Rightarrow> True | Some defaults \<Rightarrow> distinct (map fst defaults)"
    and "generatorsSucceed env1"
  shows "applyDefaultValues env2 (applyDefaultValues env1 record tc) tc =
           applyDefaultValues env1 record tc \<and>
         (\<forall>defaults field dv.
            DefaultValues tc = Some defaults \<and> (field, dv) \<in> set defaults \<and>
            needsDefault (map_of record field) \<longrightarrow>
              map_of (applyDefaultValues env1 record tc) field = Some (defaultFor env1 dv) \<and>
              (dv \<noteq> VNil \<and> dv \<noteq> VStr [] \<longrightarrow>
                 \<not> needsDefault (map_of (applyDefaultValues env1 record tc) field)))"
proof (cases "DefaultValues tc")
  case None
  then show ?thesis by (simp add: applyDefaultValues_def)
next
  case (Some ds)
  then have dist: "distinct (map fst ds)" using assms(1) by simp
  let ?r1 = "fold (applyDefault env1) ds record"
  have r1: "applyDefaultValues env1 record tc = ?r1"
    using Some by (simp add: applyDefaultValues_def)
  have entry: "map_of ?r1 field =
      (if needsDefault (map_of record field) then Some (defaultFor env1 dv) else map_of record field)"
    if "(field, dv) \<in> set ds" for field dv
    using dist that by (rule fold_applyDefault_entry)
  have step: "applyDefault env2 e ?r1 = ?r1" if e: "e \<in> set ds" for e
  proof -
    obtain field dv where fd: "e = (field, dv)" by (cases e)
    show ?thesis
    proof (cases "needsDefault (map_of record field)")
      case True
      then have m: "map_of ?r1 field = Some (defaultFor env1 dv)"
        using entry e fd by simp
      have "defaultFor env2 dv = defaultFor env1 dv"
        if "needsDefault (Some (defaultFor env1 dv))"
        using defaultFor_empty_literal [OF assms(2) that, of env2]
          defaultFor_empty_literal [OF assms(2) that, of env1] by simp
      then show ?thesis using m fd by (simp add: applyDefault_noop)
    next
      case False
      then have "map_of ?r1 field = map_of record field"
        using entry e fd by simp
      then show ?thesis using False fd by (simp add: applyDefault_def)
    qed
  qed
  have idem: "applyDefaultValues env2 ?r1 tc = ?r1"
    using Some fold_noop [of ds "applyDefault env2" ?r1] step
    by (simp add: applyDefaultValues_def)
  have filled: "map_of ?r1 field = Some (defaultFor env1 dv) \<and>
      (dv \<noteq> VNil \<and> dv \<noteq> VStr [] \<longrightarrow> \<not> needsDefault (map_of ?r1 field))"
    if "(field, dv) \<in> set ds" and "needsDefault (map_of record field)" for field dv
    using entry [OF that(1)] that(2) defaultFor_empty_literal [OF assms(2), of dv env1]
    by auto
  show ?thesis unfolding r1 using idem filled Some by auto
qed

theorem default_values_idempotent_witness:
  "generatorsSucceed sampleEnv \<and>
   applyDefaultValues sampleEnv [(''email'', VStr ''a@x'')] userTable =
     [(''email'', VStr ''a@x''), (''created_at'', VTime 1700000000), (''nickname'', VStr [])] \<and>
   applyDefaultValues laterEnv
       [(''email'', VStr ''a@x''), (''created_at'', VTime 1700000000), (''nickname'', VStr [])]
       userTable =
     [(''email'', VStr ''a@x''), (''created_at'', VTime 1700000000), (''nickname'', VStr [])] \<and>
   \<not> needsDefault (map_of (applyDefaultValues sampleEnv [(''email'', VStr ''a@x'')] userTable)
       ''created_at'')"
proof -
  have d: "case DefaultValues userTable of None \<Rightarrow> True
      | Some defaults \<Rightarrow> distinct (map fst defaults)"
    by (simp add: userTable_def)
  have g: "generatorsSucceed sampleEnv"
    by (simp add: generatorsSucceed_def sampleEnv_def)
  have r: "applyDefaultValues sampleEnv [(''email'', VStr ''a@x'')] userTable =
     [(''email'', VStr ''a@x''), (''created_at'', VTime 1700000000), (''nickname'', VStr [])]"
    by (simp add: applyDefaultValues_def applyDefault_def needsDefault_def userTable_def
      defaultFor_def defaultValueNow_def defaultValueSnowflake_def defaultValueULID_def
      defaultValueUUIDv4_def defaultValueUUIDv7_def sampleEnv_def)
  have dv: "DefaultValues userTable =
      Some [(''created_at'', VStr ''{{now}}''), (''nickname'', VStr [])]"
    by (simp add: userTable_def)
  note T = default_values_idempotent [OF d g, of laterEnv "[(''email'', VStr ''a@x'')]"]
  have a: "applyDefaultValues laterEnv
       [(''email'', VStr ''a@x''), (''created_at'', VTime 1700000000), (''nickname'', VStr [])]
       userTable =
     [(''email'', VStr ''a@x''), (''created_at'', VTime 1700000000), (''nickname'', VStr [])]"
    using T [THEN conjunct1] by (simp only: r)
  have mem: "(''created_at'', VStr ''{{now}}'') \<in>
      set [(''created_at'', VStr ''{{now}}''), (''nickname'', (VStr [] :: string val))]"
    by simp
  have nd: "needsDefault (map_of [(''email'', (VStr ''a@x'' :: string val))] ''created_at'')"
    by (simp add: needsDefault_def)
  have lit: "(VStr ''{{now}}'' :: string val) \<noteq> VNil \<and> (VStr ''{{now}}'' :: string val) \<noteq> VStr []"
    by simp
  have b: "\<not> needsDefault (map_of (applyDefaultValues sampleEnv [(''email'', VStr ''a@x'')] userTable)
       ''created_at'')"
    using T [THEN conjunct2, rule_format, OF conjI [OF dv conjI [OF mem nd]], THEN conjunct2,
        rule_format, OF lit] .
  show ?thesis using g r a b by simp
qed

end
